theory Spec2Isabelle
  imports Complex_Main
begin

section \<open>Values of the host language\<close>

text \<open>
  The program is TypeScript; everything it receives from the oracle, from the credential
  files and from \<^verbatim>\<open>JSON.parse\<close> has the static type \<^verbatim>\<open>any\<close>. Such a value is
  modelled as a \<open>js\<close> value: \<open>JUndefined\<close> is what reading a missing property gives,
  the other constructors are the values a decoded JSON text can hold. An object is the list
  of its own properties in insertion order.
\<close>

datatype js =
    JUndefined
  | JNull
  | JBool bool
  | JNumber rat
  | JString string
  | JArray "js list"
  | JObject "(string \<times> js) list"

text \<open>
  What the program can throw: \<open>Error m\<close> is \<^verbatim>\<open>new Error(m)\<close> raised by the program
  itself, \<open>TypeError\<close> is a property read on \<^verbatim>\<open>null\<close> or \<^verbatim>\<open>undefined\<close> (or iterating
  a value that is not iterable), \<open>SyntaxError\<close> is raised by \<^verbatim>\<open>JSON.parse\<close>, and
  \<open>Fault m\<close> is an exception raised by an external collaborator (calendar service, oracle,
  token endpoint, file system).
\<close>

datatype error = Error string | TypeError | SyntaxError | Fault string

type_synonym 'a result = "error + 'a"

definition nullish :: "js \<Rightarrow> bool" where
  "nullish v = (v = JUndefined \<or> v = JNull)"

text \<open>
  \<open>js_prop v k\<close> is \<^verbatim>\<open>v.k\<close> for a value that is neither \<^verbatim>\<open>null\<close> nor \<^verbatim>\<open>undefined\<close>:
  the property of an object, \<^verbatim>\<open>undefined\<close> when there is none. Of the property names
  the program reads, only \<^verbatim>\<open>length\<close> is a built-in property of strings and arrays, and
  \<^verbatim>\<open>executeCalendarActions\<close>, which reads it, treats them apart; on strings, numbers,
  booleans and arrays every other read gives \<^verbatim>\<open>undefined\<close>. An object that writes a
  key twice is not decoded from any text; on such a list the first entry is read.
\<close>

fun js_prop :: "js \<Rightarrow> string \<Rightarrow> js" where
  "js_prop (JObject kvs) k = (case map_of kvs k of None \<Rightarrow> JUndefined | Some v \<Rightarrow> v)"
| "js_prop _ k = JUndefined"

definition get_prop :: "js \<Rightarrow> string \<Rightarrow> js result" where
  "get_prop v k = (if nullish v then Inl TypeError else Inr (js_prop v k))"

text \<open>\<^verbatim>\<open>v[0]\<close>: the first element, the first character, or the property \<^verbatim>\<open>0\<close>.\<close>

fun index0 :: "js \<Rightarrow> js result" where
  "index0 JUndefined = Inl TypeError"
| "index0 JNull = Inl TypeError"
| "index0 (JArray xs) = Inr (case xs of [] \<Rightarrow> JUndefined | x # _ \<Rightarrow> x)"
| "index0 (JString s) = Inr (case s of [] \<Rightarrow> JUndefined | c # _ \<Rightarrow> JString [c])"
| "index0 (JObject kvs) = Inr (js_prop (JObject kvs) ''0'')"
| "index0 _ = Inr JUndefined"

text \<open>Truthiness, as \<^verbatim>\<open>!v\<close> and \<^verbatim>\<open>a || b\<close> test it.\<close>

fun truthy :: "js \<Rightarrow> bool" where
  "truthy JUndefined = False"
| "truthy JNull = False"
| "truthy (JBool b) = b"
| "truthy (JNumber n) = (n \<noteq> 0)"
| "truthy (JString s) = (s \<noteq> [])"
| "truthy (JArray _) = True"
| "truthy (JObject _) = True"

fun isArray :: "js \<Rightarrow> bool" where
  "isArray (JArray _) = True"
| "isArray _ = False"

text \<open>
  A template literal \<^verbatim>\<open>`${v}`\<close> converts \<open>v\<close> to a string, and the conversion of an
  object calls its \<^verbatim>\<open>toString\<close>. A decoded object with a key \<^verbatim>\<open>toString\<close> of its own
  has a value there that is not a function, and the conversion throws a \<^verbatim>\<open>TypeError\<close>;
  an array converts its elements (but \<^verbatim>\<open>null\<close>) the same way. \<open>printable v\<close>: the
  conversion of \<open>v\<close> does not throw.
\<close>

fun printable :: "js \<Rightarrow> bool" where
  "printable (JObject kvs) = (map_of kvs ''toString'' = None)"
| "printable (JArray xs) = (\<forall>x \<in> set xs. printable x)"
| "printable _ = True"

section \<open>Built-ins, collaborators and the world\<close>

text \<open>
  Library functions the program calls are parameters of the model: \<^verbatim>\<open>JSON.parse\<close>
  (\<open>None\<close> is a syntax error), \<^verbatim>\<open>JSON.stringify\<close> (with its indentation),
  \<^verbatim>\<open>yaml.parse\<close>, \<^verbatim>\<open>yaml.stringify\<close>, \<^verbatim>\<open>Date.prototype.toISOString\<close> on a time in
  milliseconds, and the string conversion of a template literal. \<open>'p\<close> is the type of the
  parsed policy document.
\<close>

record 'p builtins =
  JSON_parse :: "string \<Rightarrow> js option"
  JSON_stringify :: "nat \<Rightarrow> js \<Rightarrow> string"
  yaml_parse :: "string \<Rightarrow> 'p result"
  yaml_stringify :: "'p \<Rightarrow> string"
  toISOString :: "int \<Rightarrow> string"
  toString :: "js \<Rightarrow> string"

text \<open>The authenticated client \<^verbatim>\<open>OAuth2Client\<close>, and the arguments of the external calls.\<close>

record oauth_client =
  client_id :: js
  client_secret :: js
  redirect_uri :: js
  credentials :: js

record list_params =
  list_calendarId :: string
  timeMin :: string
  timeMax :: string
  singleEvents :: bool
  orderBy :: string

record event_time =
  dateTime :: js
  timeZone :: string

record private_properties =
  createdBy :: string
  priority :: js
  timestamp :: string

record calendar_event =
  ev_summary :: js
  ev_description :: string
  ev_start :: event_time
  ev_end :: event_time
  ev_private :: private_properties

record insert_params =
  calendarId :: string
  requestBody :: calendar_event

record request =
  model :: string
  max_tokens :: nat
  messages :: "(string \<times> string) list"
  temperature :: rat

text \<open>An event as the calendar read returns it (\<open>None\<close>: the property is absent).\<close>

record item_time =
  it_dateTime :: "string option"
  it_date :: "string option"

record calendar_item =
  it_id :: "string option"
  it_summary :: "string option"
  it_start :: "item_time option"
  it_end :: "item_time option"

datatype content_block = TextBlock string | OtherBlock string

text \<open>Every call that leaves the process is recorded, in order.\<close>

datatype ext_call =
    EventsList oauth_client list_params
  | EventsInsert oauth_client insert_params
  | MessagesCreate string request
  | GetToken oauth_client string

text \<open>
  The external collaborators. Each answers a call from the calls made so far and the
  arguments, so a collaborator may fail on its third call, on one title, or never.
  \<open>events_insert\<close> is the calendar mutation capability: \<open>Some e\<close> is the exception it
  raises.
\<close>

record collab =
  events_list :: "ext_call list \<Rightarrow> oauth_client \<Rightarrow> list_params \<Rightarrow> calendar_item list option result"
  events_insert :: "ext_call list \<Rightarrow> oauth_client \<Rightarrow> insert_params \<Rightarrow> error option"
  messages_create :: "ext_call list \<Rightarrow> string \<Rightarrow> request \<Rightarrow> content_block list result"
  getToken :: "ext_call list \<Rightarrow> oauth_client \<Rightarrow> string \<Rightarrow> js result"
  generateAuthUrl :: "oauth_client \<Rightarrow> string"

datatype file_name = StrategyYaml | CredentialsJson | TokenJson

text \<open>What the program prints, one constructor per \<^verbatim>\<open>console\<close> statement of the source.\<close>

datatype log_line =
    LogText string
  | LogAuthorize string
  | ErrFetchingEvents error
  | ErrGettingSuggestions error
  | ErrParse error
  | LogRawResponse string
  | LogProcessing js
  | LogCreating js
  | LogCreated js
  | WarnUnknownAction js
  | ErrFailedToProcess js error
  | LogFound nat
  | LogRecommendation nat string
  | ErrMain error
  | Prompt string

text \<open>
  The world: the external calls made, the console, the clock (its successive readings and
  how many were taken), the files, what the operator types at the prompts, and the
  environment variable \<^verbatim>\<open>ANTHROPIC_API_KEY\<close>.
\<close>

record world =
  calls :: "ext_call list"
  console :: "log_line list"
  clock :: "nat \<Rightarrow> int"
  reads :: nat
  files :: "file_name \<Rightarrow> string option"
  answers :: "nat \<Rightarrow> string"
  asked :: nat
  env_key :: "string option"

definition console_log :: "log_line \<Rightarrow> world \<Rightarrow> world" where
  "console_log l w = w\<lparr>console := console w @ [l]\<rparr>"

definition record_call :: "ext_call \<Rightarrow> world \<Rightarrow> world" where
  "record_call c w = w\<lparr>calls := calls w @ [c]\<rparr>"

text \<open>\<^verbatim>\<open>Date.now()\<close> and \<^verbatim>\<open>new Date()\<close>: the next reading of the clock.\<close>

definition now :: "world \<Rightarrow> int" where
  "now w = clock w (reads w)"

definition tick :: "world \<Rightarrow> world" where
  "tick w = w\<lparr>reads := Suc (reads w)\<rparr>"

section \<open>executeCalendarActions\<close>

definition move_message :: string where
  "move_message = ''Move event functionality not implemented yet''"

definition delete_message :: string where
  "delete_message = ''Delete event functionality not implemented yet''"

text \<open>The object literal \<^verbatim>\<open>event\<close> of the \<^verbatim>\<open>CREATE\<close> case, built at time \<open>t\<close>.\<close>

definition buildEvent :: "'p builtins \<Rightarrow> js \<Rightarrow> js \<Rightarrow> int \<Rightarrow> calendar_event" where
  "buildEvent B recommendation details t =
     \<lparr> ev_summary = js_prop details ''title'',
       ev_description = toString B (js_prop details ''description''),
       ev_start = \<lparr> dateTime = js_prop details ''startTime'', timeZone = ''America/Los_Angeles'' \<rparr>,
       ev_end = \<lparr> dateTime = js_prop details ''endTime'', timeZone = ''America/Los_Angeles'' \<rparr>,
       ev_private = \<lparr> createdBy = ''time-management-system'',
                      priority = js_prop recommendation ''priority'',
                      timestamp = toISOString B t \<rparr> \<rparr>"

text \<open>
  The \<^verbatim>\<open>CREATE\<close> case of the switch. The title is read and converted for the first
  line; the event is built, its description converted before the clock is read; the event
  is inserted, and the second line is printed. A failed read or conversion throws where it
  stands.
\<close>

definition createCase :: "'p builtins \<Rightarrow> collab \<Rightarrow> oauth_client \<Rightarrow> js \<Rightarrow> js \<Rightarrow> world
    \<Rightarrow> world \<times> unit result" where
  "createCase B C auth recommendation calendarAction w =
     (let details = js_prop calendarAction ''details'' in
      case get_prop details ''title'' of
        Inl e \<Rightarrow> (w, Inl e)
      | Inr title \<Rightarrow>
          if \<not> printable title then (w, Inl TypeError)
          else
            (let w1 = console_log (LogCreating title) w in
             if \<not> printable (js_prop details ''description'') then (w1, Inl TypeError)
             else
               (let params = \<lparr> calendarId = ''primary'',
                               requestBody = buildEvent B recommendation details (now w1) \<rparr>;
                    w2 = tick w1;
                    w3 = record_call (EventsInsert auth params) w2
                in case events_insert C (calls w2) auth params of
                     Some e \<Rightarrow> (w3, Inl e)
                   | None \<Rightarrow> (console_log (LogCreated title) w3, Inr ()))))"

text \<open>
  The body of the \<^verbatim>\<open>try\<close> block of the loop. The warning of the default case converts
  the type it prints.
\<close>

definition tryBody :: "'p builtins \<Rightarrow> collab \<Rightarrow> oauth_client \<Rightarrow> js \<Rightarrow> world
    \<Rightarrow> world \<times> unit result" where
  "tryBody B C auth recommendation w =
     (case get_prop recommendation ''calendarAction'' of
        Inl e \<Rightarrow> (w, Inl e)
      | Inr calendarAction \<Rightarrow>
          (case get_prop calendarAction ''type'' of
             Inl e \<Rightarrow> (w, Inl e)
           | Inr ty \<Rightarrow>
               if ty = JString ''CREATE'' then createCase B C auth recommendation calendarAction w
               else if ty = JString ''MOVE'' then (console_log (LogText move_message) w, Inr ())
               else if ty = JString ''DELETE'' then (console_log (LogText delete_message) w, Inr ())
               else if printable ty then (console_log (WarnUnknownAction ty) w, Inr ())
               else (w, Inl TypeError)))"

text \<open>
  One iteration: the \<^verbatim>\<open>try\<close> block and its \<^verbatim>\<open>catch\<close>, which prints
  \<^verbatim>\<open>recommendation.title\<close> and the error and goes on. Reading the title of \<^verbatim>\<open>null\<close>
  throws inside the handler, and so does converting a title that is not printable; that
  exception leaves the loop.
\<close>

definition processRecommendation :: "'p builtins \<Rightarrow> collab \<Rightarrow> oauth_client \<Rightarrow> js \<Rightarrow> world
    \<Rightarrow> world \<times> unit result" where
  "processRecommendation B C auth recommendation w =
     (case tryBody B C auth recommendation w of
        (w', Inr u) \<Rightarrow> (w', Inr u)
      | (w', Inl e) \<Rightarrow>
          (case get_prop recommendation ''title'' of
             Inl e' \<Rightarrow> (w', Inl e')
           | Inr title \<Rightarrow>
               if printable title then (console_log (ErrFailedToProcess title e) w', Inr ())
               else (w', Inl TypeError)))"

fun executeLoop :: "'p builtins \<Rightarrow> collab \<Rightarrow> oauth_client \<Rightarrow> js list \<Rightarrow> world
    \<Rightarrow> world \<times> unit result" where
  "executeLoop B C auth [] w = (w, Inr ())"
| "executeLoop B C auth (r # rs) w =
     (case processRecommendation B C auth r w of
        (w', Inl e) \<Rightarrow> (w', Inl e)
      | (w', Inr _) \<Rightarrow> executeLoop B C auth rs w')"

text \<open>
  The function itself: it prints the number of recommendations and iterates. A string is
  iterable too (by character); any other value makes \<^verbatim>\<open>for ... of\<close> throw, after the
  first line if its \<^verbatim>\<open>length\<close> is printable.
\<close>

definition executeCalendarActions :: "'p builtins \<Rightarrow> collab \<Rightarrow> oauth_client \<Rightarrow> js \<Rightarrow> world
    \<Rightarrow> world \<times> unit result" where
  "executeCalendarActions B C auth suggestions w =
     (case get_prop suggestions ''recommendations'' of
        Inl e \<Rightarrow> (w, Inl e)
      | Inr recommendations \<Rightarrow>
          (case recommendations of
             JArray rs \<Rightarrow>
               executeLoop B C auth rs
                 (console_log (LogProcessing (JNumber (of_nat (length rs)))) w)
           | JString s \<Rightarrow>
               executeLoop B C auth (map (\<lambda>c. JString [c]) s)
                 (console_log (LogProcessing (JNumber (of_nat (length s)))) w)
           | JUndefined \<Rightarrow> (w, Inl TypeError)
           | JNull \<Rightarrow> (w, Inl TypeError)
           | _ \<Rightarrow>
               if printable (js_prop recommendations ''length'')
               then (console_log (LogProcessing (js_prop recommendations ''length'')) w,
                     Inl TypeError)
               else (w, Inl TypeError)))"

subsection \<open>Outcomes, read off the console\<close>

text \<open>
  The source keeps no outcome value: what happened to a recommendation is the line its
  iteration prints last. \<open>outcome_of_line\<close> reads that line as the specification's
  \<open>ActionOutcome\<close>; the reason of a skip is the text the program prints.
\<close>

datatype ActionOutcome = Applied | Skipped string | Failed error

fun outcome_of_line :: "log_line \<Rightarrow> ActionOutcome option" where
  "outcome_of_line (LogCreated _) = Some Applied"
| "outcome_of_line (LogText s) =
     (if s = move_message \<or> s = delete_message then Some (Skipped s) else None)"
| "outcome_of_line (WarnUnknownAction _) = Some (Skipped ''Unknown action type'')"
| "outcome_of_line (ErrFailedToProcess _ e) = Some (Failed e)"
| "outcome_of_line _ = None"

definition outcomes :: "log_line list \<Rightarrow> ActionOutcome list" where
  "outcomes ls = List.map_filter outcome_of_line ls"

text \<open>What a run from \<open>w\<close> to \<open>w'\<close> added to the console and to the external calls.\<close>

definition printed :: "world \<Rightarrow> world \<Rightarrow> log_line list" where
  "printed w w' = drop (length (console w)) (console w')"

definition called :: "world \<Rightarrow> world \<Rightarrow> ext_call list" where
  "called w w' = drop (length (calls w)) (calls w')"

section \<open>getCalendarEvents\<close>

text \<open>
  The calendar read: the window runs from 30 days before the first reading of the clock to
  7 days after the second one. A failure is printed and thrown again.
\<close>

definition getCalendarEvents :: "'p builtins \<Rightarrow> collab \<Rightarrow> oauth_client \<Rightarrow> world
    \<Rightarrow> world \<times> calendar_item list option result" where
  "getCalendarEvents B C auth w =
     (let params = \<lparr> list_calendarId = ''primary'',
                      timeMin = toISOString B (now w - 30 * 24 * 60 * 60 * 1000),
                      timeMax = toISOString B (now (tick w) + 7 * 24 * 60 * 60 * 1000),
                      singleEvents = True,
                      orderBy = ''startTime'' \<rparr>;
          w1 = tick (tick w);
          w2 = record_call (EventsList auth params) w1
      in case events_list C (calls w1) auth params of
           Inl e \<Rightarrow> (console_log (ErrFetchingEvents e) w2, Inl e)
         | Inr items \<Rightarrow> (w2, Inr items))"

section \<open>getSchedulingSuggestions\<close>

subsection \<open>The request\<close>

definition of_opt :: "string option \<Rightarrow> js" where
  "of_opt s = (case s of None \<Rightarrow> JUndefined | Some t \<Rightarrow> JString t)"

text \<open>\<^verbatim>\<open>a || b\<close>.\<close>

definition js_or :: "js \<Rightarrow> js \<Rightarrow> js" where
  "js_or a b = (if truthy a then a else b)"

text \<open>\<^verbatim>\<open>t?.dateTime || t?.date\<close>.\<close>

definition time_of :: "item_time option \<Rightarrow> js" where
  "time_of t =
     (case t of
        None \<Rightarrow> JUndefined
      | Some s \<Rightarrow> js_or (of_opt (it_dateTime s)) (of_opt (it_date s)))"

definition formatEvent :: "calendar_item \<Rightarrow> js" where
  "formatEvent event =
     JObject [(''summary'', of_opt (it_summary event)),
              (''start'', time_of (it_start event)),
              (''end'', time_of (it_end event))]"

definition formattedEvents :: "calendar_item list \<Rightarrow> js list" where
  "formattedEvents events = map formatEvent events"

text \<open>The fixed text of the template literal \<^verbatim>\<open>context\<close>, between its three holes.\<close>

definition context_intro :: string where
  \<open>context_intro = concat (map (\<lambda>l. l @ [CHR 0x0A])
     ['''',
      ''You are a scheduling assistant responsible for maintaining my calendar according to my strategy. Your primary tasks are:'',
      ''1. Generate calendar events for ALL recurring activities'',
      ''2. Handle any adhoc requests'',
      ''3. Optimize existing calendar events'',
      '''',
      ''The current time:''])\<close>

definition context_strategy_heading :: string where
  \<open>context_strategy_heading = concat (map (\<lambda>l. l @ [CHR 0x0A])
     ['''',
      '''',
      ''My scheduling strategy:''])\<close>

definition context_events_heading :: string where
  \<open>context_events_heading = concat (map (\<lambda>l. l @ [CHR 0x0A])
     ['''',
      '''',
      ''My current calendar events for the next 7 days:''])\<close>

definition context_instructions :: string where
  \<open>context_instructions = concat (map (\<lambda>l. l @ [CHR 0x0A])
     ['''',
      '''',
      ''IMPORTANT INSTRUCTIONS:'',
      ''1. For EACH recurring event in the strategy:'',
      ''   - Create a separate recommendation'',
      ''   - Schedule it for the next appropriate time slot'',
      ''   - Follow user rules about timing (e.g., work hours, day start/end times)'',
      ''   - Consider frequency specified (daily, weekly, etc.)'',
      ''   - Account for existing calendar events to avoid conflicts'',
      '''',
      ''2. For EACH adhoc request:'',
      ''   - Create a recommendation that fits within the specified timeframe'',
      ''   - Follow prioritization rules from the strategy'',
      '''',
      ''3. Generate recommendations for AT LEAST:'',
      ''   - All daily recurring events for the next 7 days'',
      ''   - All weekly recurring events for next occurrence'',
      ''   - All adhoc requests within their specified timeframes'',
      '''',
      ''Format your response as a JSON array of recommendations with this structure:'',
      ''{'',
      ''  "recommendations": ['',
      ''    {'',
      ''      "priority": "HIGH" | "MEDIUM" | "LOW",'',
      ''      "recommendation": "Human readable description of what should be done",'',
      ''      "reason": "Clear explanation of why this scheduling choice was made",'',
      ''      "calendarAction": {'',
      ''        "type": "CREATE" | "MOVE" | "DELETE",'',
      ''        "details": {'',
      ''          "title": "string",'',
      ''          "description": "string",'',
      ''          "startTime": "ISO datetime",'',
      ''          "endTime": "ISO datetime"'',
      ''        }'',
      ''      }'',
      ''    }'',
      ''  ]'',
      ''}'',
      '''']) @
     ''CRITICAL: Ensure you create recommendations for EVERY recurring event and adhoc request, even if you have to make reasonable assumptions about timing and duration. If a recurring event is specified as daily, create 7 instances for the next 7 days.''\<close>

definition buildContext :: "'p builtins \<Rightarrow> 'p \<Rightarrow> calendar_item list \<Rightarrow> int \<Rightarrow> string" where
  "buildContext B strategy events t =
     context_intro @ toISOString B t @
     context_strategy_heading @ yaml_stringify B strategy @
     context_events_heading @ JSON_stringify B 2 (JArray (formattedEvents events)) @
     context_instructions"

text \<open>The argument of \<^verbatim>\<open>anthropic.messages.create\<close>.\<close>

definition oracleRequest :: "string \<Rightarrow> request" where
  "oracleRequest context =
     \<lparr> model = ''claude-3-sonnet-20240229'',
       max_tokens = 4096,
       messages = [(''user'', context), (''assistant'', ''{'')],
       temperature = 8 / 10 \<rparr>"

text \<open>
  Building the request: the events are formatted, the clock is read for the template,
  the text is printed, and the request is the text with the fixed parameters.
\<close>

definition buildOracleRequest :: "'p builtins \<Rightarrow> 'p \<Rightarrow> calendar_item list \<Rightarrow> world
    \<Rightarrow> world \<times> request" where
  "buildOracleRequest B strategy events w =
     (let context = buildContext B strategy events (now w)
      in (console_log (LogText context) (tick w), oracleRequest context))"

subsection \<open>Decoding the answer\<close>

text \<open>
  The inner \<^verbatim>\<open>try\<close> block: the text is decoded behind an opening brace, and the decoded
  value must have a truthy \<^verbatim>\<open>recommendations\<close> that is an array. It is returned as it is.
\<close>

definition decodeSuggestions :: "'p builtins \<Rightarrow> string \<Rightarrow> js result" where
  "decodeSuggestions B text =
     (case JSON_parse B (CHR ''{'' # text) of
        None \<Rightarrow> Inl SyntaxError
      | Some suggestions \<Rightarrow>
          (case get_prop suggestions ''recommendations'' of
             Inl e \<Rightarrow> Inl e
           | Inr recommendations \<Rightarrow>
               if \<not> truthy recommendations \<or> \<not> isArray recommendations
               then Inl (Error ''Invalid response structure'')
               else Inr suggestions))"

definition parse_failure :: error where
  "parse_failure = Error ''Failed to parse scheduling suggestions''"

text \<open>What follows the oracle's answer: the check of the first block and the decoding.\<close>

definition readResponse :: "'p builtins \<Rightarrow> content_block list \<Rightarrow> world \<Rightarrow> world \<times> js result" where
  "readResponse B content w =
     (case content of
        [] \<Rightarrow> (console_log (ErrGettingSuggestions TypeError) w, Inl TypeError)
      | OtherBlock ty # _ \<Rightarrow>
          (console_log (ErrGettingSuggestions (Error ''Response type is not text'')) w,
           Inl (Error ''Response type is not text''))
      | TextBlock text # _ \<Rightarrow>
          (case decodeSuggestions B text of
             Inr suggestions \<Rightarrow> (w, Inr suggestions)
           | Inl parseError \<Rightarrow>
               (console_log (ErrGettingSuggestions parse_failure)
                  (console_log (LogRawResponse text)
                     (console_log (ErrParse parseError) w)),
                Inl parse_failure)))"

definition key_missing :: "string option \<Rightarrow> bool" where
  "key_missing k = (k = None \<or> k = Some [])"

definition getSchedulingSuggestions :: "'p builtins \<Rightarrow> collab \<Rightarrow> 'p \<Rightarrow> calendar_item list
    \<Rightarrow> string option \<Rightarrow> world \<Rightarrow> world \<times> js result" where
  "getSchedulingSuggestions B C strategy events anthropicKey w =
     (if key_missing anthropicKey
      then (w, Inl (Error ''ANTHROPIC_API_KEY not found in environment variables''))
      else
        (let key = the anthropicKey;
             w1 = fst (buildOracleRequest B strategy events w);
             req = snd (buildOracleRequest B strategy events w);
             w2 = record_call (MessagesCreate key req) w1
         in case messages_create C (calls w1) key req of
              Inl e \<Rightarrow> (console_log (ErrGettingSuggestions e) w2, Inl e)
            | Inr content \<Rightarrow> readResponse B content w2))"

section \<open>getAuthenticatedClient\<close>

definition ask :: "string \<Rightarrow> world \<Rightarrow> world \<times> string" where
  "ask question w =
     ((console_log (Prompt question) w)\<lparr>asked := Suc (asked w)\<rparr>, answers w (asked w))"

definition getAuthenticatedClient :: "'p builtins \<Rightarrow> collab \<Rightarrow> world
    \<Rightarrow> world \<times> oauth_client result" where
  "getAuthenticatedClient B C w =
     (case files w CredentialsJson of
        None \<Rightarrow> (w, Inl (Error ''credentials.json not found in project root''))
      | Some text \<Rightarrow>
     (case JSON_parse B text of
        None \<Rightarrow> (w, Inl SyntaxError)
      | Some creds \<Rightarrow>
     (case get_prop creds ''installed'' of
        Inl e \<Rightarrow> (w, Inl e)
      | Inr installed \<Rightarrow>
     if nullish installed then (w, Inl TypeError)
     else
     (case index0 (js_prop installed ''redirect_uris'') of
        Inl e \<Rightarrow> (w, Inl e)
      | Inr uri \<Rightarrow>
     (let client = \<lparr> client_id = js_prop installed ''client_id'',
                      client_secret = js_prop installed ''client_secret'',
                      redirect_uri = uri,
                      credentials = JUndefined \<rparr>
      in case files w TokenJson of
           Some ttext \<Rightarrow>
             (case JSON_parse B ttext of
                None \<Rightarrow> (w, Inl SyntaxError)
              | Some token \<Rightarrow> (w, Inr (client\<lparr>credentials := token\<rparr>)))
         | None \<Rightarrow>
             (let w1 = console_log (LogAuthorize (generateAuthUrl C client)) w;
                  w2 = fst (ask ''Enter the code from that page here: '' w1);
                  code = snd (ask ''Enter the code from that page here: '' w1);
                  w3 = record_call (GetToken client code) w2
              in case getToken C (calls w2) client code of
                   Inl e \<Rightarrow> (w3, Inl e)
                 | Inr tokens \<Rightarrow>
                     (w3\<lparr>files := (files w3)(TokenJson \<mapsto> JSON_stringify B 0 tokens)\<rparr>,
                      Inr (client\<lparr>credentials := tokens\<rparr>))))))))"

section \<open>main\<close>

fun printRecommendations :: "'p builtins \<Rightarrow> js list \<Rightarrow> nat \<Rightarrow> world \<Rightarrow> world" where
  "printRecommendations B [] index w = w"
| "printRecommendations B (r # rs) index w =
     printRecommendations B rs (Suc index)
       (console_log (LogRecommendation (index + 1) (JSON_stringify B 2 r)) w)"

text \<open>From the printing of the suggestions to the end of the \<^verbatim>\<open>try\<close> block of \<^verbatim>\<open>main\<close>.\<close>

definition afterSuggestions :: "'p builtins \<Rightarrow> collab \<Rightarrow> oauth_client \<Rightarrow> js \<Rightarrow> world
    \<Rightarrow> world \<times> unit result" where
  "afterSuggestions B C auth suggestions w =
     (let w1 = console_log (LogText (CHR 0x0A # ''Scheduling Suggestions:'')) w
      in case get_prop suggestions ''recommendations'' of
           Inr (JArray rs) \<Rightarrow>
             (let w2 = printRecommendations B rs 0 w1;
                  w3 = fst (ask (CHR 0x0A # ''Do you want to execute these calendar actions? (y/n) '') w2);
                  answer = snd (ask (CHR 0x0A # ''Do you want to execute these calendar actions? (y/n) '') w2)
              in if answer = ''y'' \<or> answer = ''Y''
                 then
                   (case executeCalendarActions B C auth suggestions
                           (console_log (LogText (CHR 0x0A # ''Executing calendar actions...'')) w3) of
                      (w4, Inl e) \<Rightarrow> (w4, Inl e)
                    | (w4, Inr _) \<Rightarrow>
                        (console_log (LogText ''Calendar updates complete!'') w4, Inr ()))
                 else (console_log (LogText ''Calendar actions cancelled.'') w3, Inr ()))
         | _ \<Rightarrow> (w1, Inl TypeError))"

text \<open>From the count of the events on.\<close>

definition afterEvents :: "'p builtins \<Rightarrow> collab \<Rightarrow> 'p \<Rightarrow> oauth_client
    \<Rightarrow> calendar_item list option \<Rightarrow> world \<Rightarrow> world \<times> unit result" where
  "afterEvents B C strategy auth events w =
     (let w1 = console_log (LogFound (case events of None \<Rightarrow> 0 | Some es \<Rightarrow> length es)) w;
          w2 = console_log (LogText (CHR 0x0A # ''Getting scheduling suggestions...'')) w1
      in case getSchedulingSuggestions B C strategy
                (case events of None \<Rightarrow> [] | Some es \<Rightarrow> es) (env_key w2) w2 of
           (w3, Inl e) \<Rightarrow> (w3, Inl e)
         | (w3, Inr suggestions) \<Rightarrow> afterSuggestions B C auth suggestions w3)"

text \<open>The \<^verbatim>\<open>try\<close> block of \<^verbatim>\<open>main\<close>, and \<^verbatim>\<open>main\<close> with its handler.\<close>

definition mainBody :: "'p builtins \<Rightarrow> collab \<Rightarrow> world \<Rightarrow> world \<times> unit result" where
  "mainBody B C w =
     (let w1 = console_log (LogText ''Starting time management system...'') w
      in case files w1 StrategyYaml of
           None \<Rightarrow> (w1, Inl (Fault ''ENOENT''))
         | Some text \<Rightarrow>
        (case yaml_parse B text of
           Inl e \<Rightarrow> (w1, Inl e)
         | Inr strategy \<Rightarrow>
        (case getAuthenticatedClient B C (console_log (LogText ''Strategy loaded'') w1) of
           (w3, Inl e) \<Rightarrow> (w3, Inl e)
         | (w3, Inr auth) \<Rightarrow>
        (case getCalendarEvents B C auth w3 of
           (w4, Inl e) \<Rightarrow> (w4, Inl e)
         | (w4, Inr events) \<Rightarrow> afterEvents B C strategy auth events w4))))"

definition main :: "'p builtins \<Rightarrow> collab \<Rightarrow> world \<Rightarrow> world" where
  "main B C w =
     (case mainBody B C w of
        (w', Inl e) \<Rightarrow> console_log (ErrMain e) w'
      | (w', Inr _) \<Rightarrow> w')"

section \<open>Reading a run\<close>

text \<open>The fields of a recommendation that the loop reads.\<close>

definition action_type :: "js \<Rightarrow> js" where
  "action_type r = js_prop (js_prop r ''calendarAction'') ''type''"

definition details_of :: "js \<Rightarrow> js" where
  "details_of r = js_prop (js_prop r ''calendarAction'') ''details''"


definition creatable :: "js \<Rightarrow> bool" where
  "creatable r =
     (action_type r = JString ''CREATE'' \<and> \<not> nullish (details_of r) \<and>
      printable (js_prop (details_of r) ''title'') \<and>
      printable (js_prop (details_of r) ''description''))"


text \<open>
  The argument of the insertion for \<open>r\<close> in the world \<open>w\<close>, and what the mutation
  capability answers to it.
\<close>

definition insertion :: "'p builtins \<Rightarrow> js \<Rightarrow> world \<Rightarrow> insert_params" where
  "insertion B r w =
     \<lparr> calendarId = ''primary'', requestBody = buildEvent B r (details_of r) (now w) \<rparr>"





fun is_insert :: "ext_call \<Rightarrow> bool" where
  "is_insert (EventsInsert _ _) = True"
| "is_insert _ = False"

fun is_oracle_call :: "ext_call \<Rightarrow> bool" where
  "is_oracle_call (MessagesCreate _ _) = True"
| "is_oracle_call _ = False"

fun is_recommendation_line :: "log_line \<Rightarrow> bool" where
  "is_recommendation_line (LogRecommendation _ _) = True"
| "is_recommendation_line _ = False"

fun in_los_angeles :: "ext_call \<Rightarrow> bool" where
  "in_los_angeles (EventsInsert a p) =
     (timeZone (ev_start (requestBody p)) = ''America/Los_Angeles'' \<and>
      timeZone (ev_end (requestBody p)) = ''America/Los_Angeles'')"
| "in_los_angeles _ = False"

text \<open>
  A run only adds to the console and to the list of external calls, and leaves the
  environment as it is.
\<close>

definition extends :: "world \<Rightarrow> world \<Rightarrow> bool" where
  "extends w w' =
     ((\<exists>ls. console w' = console w @ ls) \<and> (\<exists>cs. calls w' = calls w @ cs) \<and>
      env_key w' = env_key w)"

text \<open>
  The calls that only read: the listing of the events and the exchange of the
  authorization code. \<open>adds_reads w w'\<close>: from \<open>w\<close> to \<open>w'\<close> only such calls were
  made, and the environment is the same.
\<close>

fun read_call :: "ext_call \<Rightarrow> bool" where
  "read_call (EventsList _ _) = True"
| "read_call (GetToken _ _) = True"
| "read_call _ = False"

definition adds_reads :: "world \<Rightarrow> world \<Rightarrow> bool" where
  "adds_reads w w' =
     ((\<exists>cs. calls w' = calls w @ cs \<and> list_all read_call cs) \<and> env_key w' = env_key w)"

section \<open>Concrete built-ins, for running the model\<close>

subsection \<open>A decoder for a fragment of JSON\<close>

text \<open>
  Objects, arrays, strings without escape sequences, \<^verbatim>\<open>true\<close>, \<^verbatim>\<open>false\<close> and \<^verbatim>\<open>null\<close>,
  with white space between tokens; numbers and escapes are outside the fragment and are
  refused. On a text of the fragment the value is the one \<^verbatim>\<open>JSON.parse\<close> gives: a key
  written twice keeps its first place and its last value. The recursion is on a bound that
  the length of the text exceeds.
\<close>

definition is_ws :: "char \<Rightarrow> bool" where
  "is_ws c = (c = CHR '' '' \<or> c = CHR 0x0A \<or> c = CHR 0x0D \<or> c = CHR 0x09)"

fun skip_ws :: "string \<Rightarrow> string" where
  "skip_ws [] = []"
| "skip_ws (c # cs) = (if is_ws c then skip_ws cs else c # cs)"

fun string_body :: "string \<Rightarrow> (string \<times> string) option" where
  "string_body [] = None"
| "string_body (c # cs) =
     (if c = CHR 0x22 then Some ([], cs)
      else if c = CHR 0x5C \<or> of_char c < (32 :: nat) then None
      else (case string_body cs of
              None \<Rightarrow> None
            | Some (s, rest) \<Rightarrow> Some (c # s, rest)))"

fun set_prop :: "string \<Rightarrow> js \<Rightarrow> (string \<times> js) list \<Rightarrow> (string \<times> js) list" where
  "set_prop k v [] = [(k, v)]"
| "set_prop k v ((k', v') # kvs) = (if k = k' then (k, v) # kvs else (k', v') # set_prop k v kvs)"

fun json_value :: "nat \<Rightarrow> string \<Rightarrow> (js \<times> string) option"
  and json_elements :: "nat \<Rightarrow> js list \<Rightarrow> string \<Rightarrow> (js list \<times> string) option"
  and json_members :: "nat \<Rightarrow> (string \<times> js) list \<Rightarrow> string \<Rightarrow> ((string \<times> js) list \<times> string) option"
  where
  "json_value 0 s = None"
| "json_value (Suc n) s =
     (case skip_ws s of
        [] \<Rightarrow> None
      | c # r \<Rightarrow>
          if c = CHR ''{'' then
            (case skip_ws r of
               [] \<Rightarrow> None
             | d # r' \<Rightarrow>
                 if d = CHR ''}'' then Some (JObject [], r')
                 else (case json_members n [] (d # r') of
                         None \<Rightarrow> None
                       | Some (kvs, rest) \<Rightarrow> Some (JObject kvs, rest)))
          else if c = CHR ''['' then
            (case skip_ws r of
               [] \<Rightarrow> None
             | d # r' \<Rightarrow>
                 if d = CHR '']'' then Some (JArray [], r')
                 else (case json_elements n [] (d # r') of
                         None \<Rightarrow> None
                       | Some (vs, rest) \<Rightarrow> Some (JArray vs, rest)))
          else if c = CHR 0x22 then
            (case string_body r of
               None \<Rightarrow> None
             | Some (str, rest) \<Rightarrow> Some (JString str, rest))
          else if take 4 (c # r) = ''null'' then Some (JNull, drop 4 (c # r))
          else if take 4 (c # r) = ''true'' then Some (JBool True, drop 4 (c # r))
          else if take 5 (c # r) = ''false'' then Some (JBool False, drop 5 (c # r))
          else None)"
| "json_elements 0 acc s = None"
| "json_elements (Suc n) acc s =
     (case json_value n s of
        None \<Rightarrow> None
      | Some (v, r) \<Rightarrow>
          (case skip_ws r of
             [] \<Rightarrow> None
           | c # r' \<Rightarrow>
               if c = CHR '','' then json_elements n (acc @ [v]) r'
               else if c = CHR '']'' then Some (acc @ [v], r')
               else None))"
| "json_members 0 acc s = None"
| "json_members (Suc n) acc s =
     (case skip_ws s of
        [] \<Rightarrow> None
      | q # r \<Rightarrow>
          if q \<noteq> CHR 0x22 then None
          else
            (case string_body r of
               None \<Rightarrow> None
             | Some (k, r1) \<Rightarrow>
                 (case skip_ws r1 of
                    [] \<Rightarrow> None
                  | c # r2 \<Rightarrow>
                      if c \<noteq> CHR '':'' then None
                      else
                        (case json_value n r2 of
                           None \<Rightarrow> None
                         | Some (v, r3) \<Rightarrow>
                             (case skip_ws r3 of
                                [] \<Rightarrow> None
                              | d # r4 \<Rightarrow>
                                  if d = CHR '','' then json_members n (set_prop k v acc) r4
                                  else if d = CHR ''}'' then Some (set_prop k v acc, r4)
                                  else None)))))"

definition json_decode :: "string \<Rightarrow> js option" where
  "json_decode s =
     (case json_value (Suc (length s)) s of
        None \<Rightarrow> None
      | Some (v, rest) \<Rightarrow> if skip_ws rest = [] then Some v else None)"

subsection \<open>Printing an instant\<close>

text \<open>
  \<^verbatim>\<open>toISOString\<close> for the years 0 to 9999: the days since the epoch are turned into a
  civil date of the proleptic Gregorian calendar.
\<close>

definition digit :: "int \<Rightarrow> char" where
  "digit d = char_of (48 + d)"

definition pad2 :: "int \<Rightarrow> string" where
  "pad2 n = [digit (n div 10 mod 10), digit (n mod 10)]"

definition pad3 :: "int \<Rightarrow> string" where
  "pad3 n = [digit (n div 100 mod 10), digit (n div 10 mod 10), digit (n mod 10)]"

definition pad4 :: "int \<Rightarrow> string" where
  "pad4 n = [digit (n div 1000 mod 10), digit (n div 100 mod 10), digit (n div 10 mod 10), digit (n mod 10)]"

definition civil :: "int \<Rightarrow> int \<times> int \<times> int" where
  "civil days =
     (let z = days + 719468;
          era = z div 146097;
          doe = z mod 146097;
          yoe = (doe - doe div 1460 + doe div 36524 - doe div 146096) div 365;
          doy = doe - (365 * yoe + yoe div 4 - yoe div 100);
          mp = (5 * doy + 2) div 153;
          d = doy - (153 * mp + 2) div 5 + 1;
          m = (if mp < 10 then mp + 3 else mp - 9);
          y = yoe + era * 400 + (if m \<le> 2 then 1 else 0)
      in (y, m, d))"

definition iso_string :: "int \<Rightarrow> string" where
  "iso_string ms =
     (let days = ms div 86400000;
          r = ms mod 86400000;
          (y, m, d) = civil days
      in pad4 y @ ''-'' @ pad2 m @ ''-'' @ pad2 d @ ''T'' @
         pad2 (r div 3600000) @ '':'' @ pad2 (r div 60000 mod 60) @ '':'' @
         pad2 (r div 1000 mod 60) @ ''.'' @ pad3 (r mod 1000) @ ''Z'')"

subsection \<open>Example inputs\<close>

text \<open>
  The string conversion of a template literal, on the values the examples convert.
\<close>

fun text_of :: "js \<Rightarrow> string" where
  "text_of (JString s) = s"
| "text_of JUndefined = ''undefined''"
| "text_of JNull = ''null''"
| "text_of (JBool b) = (if b then ''true'' else ''false'')"
| "text_of (JObject _) = ''[object Object]''"
| "text_of _ = []"

text \<open>
  The policy document is kept as its text, and \<^verbatim>\<open>JSON.stringify\<close> is right on the
  empty list of events, the only value the examples print with it.
\<close>

definition example_builtins :: "string builtins" where
  "example_builtins =
     \<lparr> JSON_parse = json_decode,
       JSON_stringify = (\<lambda>indent v. if v = JArray [] then ''[]'' else []),
       yaml_parse = Inr,
       yaml_stringify = (\<lambda>p. p),
       toISOString = iso_string,
       toString = text_of \<rparr>"

definition example_client :: oauth_client where
  "example_client =
     \<lparr> client_id = JString ''id'', client_secret = JString ''secret'',
       redirect_uri = JString ''http://localhost'',
       credentials = JObject [(''access_token'', JString ''token'')] \<rparr>"

text \<open>Two mutation capabilities: one never fails, one fails on a given title.\<close>

definition always_succeeds :: "ext_call list \<Rightarrow> oauth_client \<Rightarrow> insert_params \<Rightarrow> error option" where
  "always_succeeds h a p = None"


text \<open>
  Collaborators: an empty calendar, an oracle that answers with one text block, and the
  given mutation capability.
\<close>

definition example_collab :: "string \<Rightarrow> (ext_call list \<Rightarrow> oauth_client \<Rightarrow> insert_params \<Rightarrow> error option)
    \<Rightarrow> collab" where
  "example_collab answer capability =
     \<lparr> events_list = (\<lambda>h a p. Inr (Some [])),
       events_insert = capability,
       messages_create = (\<lambda>h k r. Inr [TextBlock answer]),
       getToken = (\<lambda>h a c. Inl (Fault ''invalid_grant'')),
       generateAuthUrl = (\<lambda>a. ''https://accounts.google.com/o/oauth2/v2/auth'') \<rparr>"

definition example_strategy :: string where
  \<open>example_strategy = ''recurring_events: ["Light 15 min home workout every day"]''\<close>

definition example_files :: "file_name \<Rightarrow> string option" where
  \<open>example_files f =
     (case f of
        StrategyYaml \<Rightarrow> Some example_strategy
      | CredentialsJson \<Rightarrow>
          Some ''{"installed": {"client_id": "id", "client_secret": "secret", "redirect_uris": ["http://localhost"]}}''
      | TokenJson \<Rightarrow> Some ''{"access_token": "token"}'')\<close>

text \<open>
  A world on 2024-01-01 at 07:00 UTC whose clock advances by a millisecond at each reading,
  with an operator who answers \<^verbatim>\<open>y\<close>; the argument is the environment variable.
\<close>

definition example_world :: "string option \<Rightarrow> world" where
  "example_world key =
     \<lparr> calls = [], console = [], clock = (\<lambda>n. 1704092400000 + int n), reads = 0,
       files = example_files, answers = (\<lambda>n. ''y''), asked = 0, env_key = key \<rparr>"

text \<open>The same world with its key, and without the file \<^verbatim>\<open>credentials.json\<close>.\<close>

definition without_credentials :: world where
  "without_credentials =
     (example_world (Some ''sk-test''))\<lparr>files := example_files(CredentialsJson := None)\<rparr>"

text \<open>The JSON object of a recommendation.\<close>

definition recommendation :: "string \<Rightarrow> string \<Rightarrow> string \<Rightarrow> string \<Rightarrow> string \<Rightarrow> js" where
  "recommendation prio ty title startTime endTime =
     JObject
       [(''priority'', JString prio),
        (''calendarAction'',
           JObject
             [(''type'', JString ty),
              (''details'',
                 JObject
                   [(''title'', JString title),
                    (''description'', JString []),
                    (''startTime'', JString startTime),
                    (''endTime'', JString endTime)])])]"

text \<open>The decoded answer that holds the given recommendations.\<close>

definition suggestions_of :: "js list \<Rightarrow> js" where
  "suggestions_of rs = JObject [(''recommendations'', JArray rs)]"

definition light_workout :: js where
  "light_workout =
     recommendation ''HIGH'' ''CREATE'' ''Light workout'' ''2024-01-01T07:00:00Z'' ''2024-01-01T07:15:00Z''"

definition urgent_grooming :: js where
  "urgent_grooming =
     recommendation ''URGENT'' ''CREATE'' ''Grooming'' ''2024-01-01T06:30:00Z'' ''2024-01-01T07:00:00Z''"

definition empty_book_club :: js where
  "empty_book_club =
     recommendation ''LOW'' ''CREATE'' ''Book Club'' ''2024-01-07T15:00:00Z'' ''2024-01-07T15:00:00Z''"



definition move_dinner :: js where
  "move_dinner =
     recommendation ''MEDIUM'' ''MOVE'' ''Dinner'' ''2024-01-01T19:00:00Z'' ''2024-01-01T20:00:00Z''"

text \<open>
  Answers of the oracle, as they follow the pre-seeded brace: three recommendations, the
  second with a priority outside the enumeration; and one recommendation with
  \<open>startTime = endTime\<close>.
\<close>

definition three_answer :: string where
  \<open>three_answer =
     '' "recommendations": ['' @
     ''{"priority": "HIGH", "calendarAction": {"type": "CREATE", "details": {"title": "Light workout", "description": "", "startTime": "2024-01-01T07:00:00Z", "endTime": "2024-01-01T07:15:00Z"}}},'' @
     ''{"priority": "URGENT", "calendarAction": {"type": "CREATE", "details": {"title": "Grooming", "description": "", "startTime": "2024-01-01T06:30:00Z", "endTime": "2024-01-01T07:00:00Z"}}},'' @
     ''{"priority": "MEDIUM", "calendarAction": {"type": "MOVE", "details": {"title": "Dinner", "description": "", "startTime": "2024-01-01T19:00:00Z", "endTime": "2024-01-01T20:00:00Z"}}}'' @
     '']}''\<close>

definition empty_answer :: string where
  \<open>empty_answer =
     '' "recommendations": ['' @
     ''{"priority": "LOW", "calendarAction": {"type": "CREATE", "details": {"title": "Book Club", "description": "", "startTime": "2024-01-07T15:00:00Z", "endTime": "2024-01-07T15:00:00Z"}}}'' @
     '']}''\<close>

text \<open>An answer whose top level has no \<^verbatim>\<open>recommendations\<close>, and one that is cut short.\<close>

definition misnamed_answer :: string where
  \<open>misnamed_answer = '' "suggestions": []}''\<close>

definition truncated_answer :: string where
  \<open>truncated_answer = '' "recommendations": [{"priority": "HIGH"''\<close>

text \<open>Two events of the calendar with the same title and times.\<close>

definition standup :: "string \<Rightarrow> calendar_item" where
  "standup ident =
     \<lparr> it_id = Some ident, it_summary = Some ''Standup'',
       it_start = Some \<lparr> it_dateTime = Some ''2024-01-02T09:00:00Z'', it_date = None \<rparr>,
       it_end = Some \<lparr> it_dateTime = Some ''2024-01-02T09:15:00Z'', it_date = None \<rparr> \<rparr>"

section \<open>Properties of the loop\<close>

subsection \<open>Runs only add to the world\<close>

lemma extends_refl: "extends w w"
  by (simp add: extends_def)

lemma extends_trans: "extends w w' \<Longrightarrow> extends w' w'' \<Longrightarrow> extends w w''"
  by (auto simp: extends_def)

lemma extends_console_log: "extends w (console_log l w)"
  by (simp add: extends_def console_log_def)

lemma printed_append:
  "extends w w' \<Longrightarrow> extends w' w'' \<Longrightarrow> printed w w'' = printed w w' @ printed w' w''"
  by (auto simp: extends_def printed_def)

lemma called_append:
  "extends w w' \<Longrightarrow> extends w' w'' \<Longrightarrow> called w w'' = called w w' @ called w' w''"
  by (auto simp: extends_def called_def)



lemma called_self: "called w w = []"
  by (simp add: called_def)

lemma printed_console_log: "printed w (console_log l w) = [l]"
  by (simp add: printed_def console_log_def)

lemma called_console_log: "called w (console_log l w') = called w w'"
  by (simp add: called_def console_log_def)

lemma extends_createCase: "extends w (fst (createCase B C auth r a w))"
  by (auto simp: createCase_def get_prop_def Let_def extends_def console_log_def record_call_def
      tick_def split: option.splits)

lemma extends_tryBody: "extends w (fst (tryBody B C auth r w))"
  by (auto simp: tryBody_def get_prop_def extends_createCase extends_console_log extends_refl
      split: sum.splits)

lemma extends_processRecommendation: "extends w (fst (processRecommendation B C auth r w))"
  using extends_tryBody [of w B C auth r]
  by (auto simp: processRecommendation_def get_prop_def split: prod.splits sum.splits
      intro: extends_trans extends_console_log)

lemma extends_executeLoop: "extends w (fst (executeLoop B C auth rs w))"
proof (induction rs arbitrary: w)
  case Nil
  show ?case by (simp add: extends_refl)
next
  case (Cons r rs)
  show ?case
  proof (cases "processRecommendation B C auth r w")
    case (Pair w' res)
    then have e: "extends w w'"
      using extends_processRecommendation [of w B C auth r] by simp
    show ?thesis
    proof (cases res)
      case (Inl err)
      with Pair e show ?thesis by simp
    next
      case (Inr u)
      with Pair e Cons.IH [of w'] show ?thesis
        by (auto intro: extends_trans)
    qed
  qed
qed

subsection \<open>One iteration, case by case\<close>

lemma js_prop_nullish: "nullish v \<Longrightarrow> js_prop v k = JUndefined"
  by (auto simp: nullish_def)

lemma action_type_not_nullish:
  assumes "action_type r = JString t"
  shows "\<not> nullish r" and "\<not> nullish (js_prop r ''calendarAction'')"
proof -
  show "\<not> nullish (js_prop r ''calendarAction'')"
    using assms js_prop_nullish [of "js_prop r ''calendarAction''" "''type''"]
    by (auto simp: action_type_def)
  then show "\<not> nullish r"
    using js_prop_nullish [of r "''calendarAction''"] by (auto simp: nullish_def)
qed

lemma creatable_not_nullish:
  assumes "creatable r"
  shows "\<not> nullish r" and "\<not> nullish (js_prop r ''calendarAction'')"
  using assms action_type_not_nullish [of r "''CREATE''"] by (simp_all add: creatable_def)

lemma tryBody_move:
  assumes "action_type r = JString ''MOVE''"
  shows "tryBody B C auth r w = (console_log (LogText move_message) w, Inr ())"
  using assms action_type_not_nullish [OF assms]
  by (simp add: tryBody_def get_prop_def action_type_def)

lemma tryBody_delete:
  assumes "action_type r = JString ''DELETE''"
  shows "tryBody B C auth r w = (console_log (LogText delete_message) w, Inr ())"
  using assms action_type_not_nullish [OF assms]
  by (simp add: tryBody_def get_prop_def action_type_def)




lemma process_ok:
  "tryBody B C auth r w = (w', Inr u) \<Longrightarrow> processRecommendation B C auth r w = (w', Inr ())"
  by (simp add: processRecommendation_def)


lemma outcomes_simps:
  "outcomes [] = []"
  "outcomes (LogCreated t # ls) = Applied # outcomes ls"
  "outcomes (LogCreating t # ls) = outcomes ls"
  "outcomes (LogProcessing n # ls) = outcomes ls"
  "outcomes (WarnUnknownAction t # ls) = Skipped ''Unknown action type'' # outcomes ls"
  "outcomes (ErrFailedToProcess t e # ls) = Failed e # outcomes ls"
  "outcomes (LogText move_message # ls) = Skipped move_message # outcomes ls"
  "outcomes (LogText delete_message # ls) = Skipped delete_message # outcomes ls"
  by (simp_all add: outcomes_def map_filter_def)



lemma step_move:
  assumes "action_type r = JString ''MOVE''"
  shows "processRecommendation B C auth r w = (console_log (LogText move_message) w, Inr ())"
  using process_ok [of B C auth r w] tryBody_move [OF assms, of B C auth w] by simp

lemma step_delete:
  assumes "action_type r = JString ''DELETE''"
  shows "processRecommendation B C auth r w = (console_log (LogText delete_message) w, Inr ())"
  using process_ok [of B C auth r w] tryBody_delete [OF assms, of B C auth w] by simp








subsection \<open>The calls of the loop\<close>

lemma called_createCase:
  "called w (fst (createCase B C auth r a w)) =
     (if \<not> nullish (js_prop a ''details'') \<and> printable (js_prop (js_prop a ''details'') ''title'') \<and>
         printable (js_prop (js_prop a ''details'') ''description'')
      then [EventsInsert auth
              \<lparr> calendarId = ''primary'',
                requestBody = buildEvent B r (js_prop a ''details'') (now w) \<rparr>]
      else [])"
  by (auto simp: createCase_def get_prop_def Let_def console_log_def record_call_def tick_def
      now_def called_def split: option.splits)

lemma called_tryBody:
  "called w (fst (tryBody B C auth r w)) =
     (if creatable r then [EventsInsert auth (insertion B r w)] else [])"
proof (cases "nullish r \<or> nullish (js_prop r ''calendarAction'')")
  case True
  then have "\<not> creatable r"
    using creatable_not_nullish [of r] by blast
  with True show ?thesis
    by (auto simp: tryBody_def get_prop_def called_self)
next
  case False
  then have nn: "\<not> nullish r" "\<not> nullish (js_prop r ''calendarAction'')"
    by simp_all
  show ?thesis
  proof (cases "action_type r = JString ''CREATE''")
    case True
    have "tryBody B C auth r w = createCase B C auth r (js_prop r ''calendarAction'') w"
      using True nn by (simp add: tryBody_def get_prop_def action_type_def)
    then show ?thesis
      using called_createCase [of w B C auth r "js_prop r ''calendarAction''"] True
      by (simp add: creatable_def details_of_def insertion_def)
  next
    case False
    then have "\<not> creatable r"
      by (simp add: creatable_def)
    with False nn show ?thesis
      by (simp add: tryBody_def get_prop_def action_type_def called_self called_console_log)
  qed
qed

lemma called_processRecommendation:
  "called w (fst (processRecommendation B C auth r w)) = called w (fst (tryBody B C auth r w))"
  by (auto simp: processRecommendation_def get_prop_def called_console_log
      split: prod.splits sum.splits)

lemma step_calls:
  "called w (fst (processRecommendation B C auth r w)) =
     (if creatable r then [EventsInsert auth (insertion B r w)] else [])"
  by (simp add: called_processRecommendation called_tryBody)

lemma insertion_zone: "in_los_angeles (EventsInsert auth (insertion B r w))"
  by (simp add: insertion_def buildEvent_def)

lemma step_zone:
  "\<forall>c \<in> set (called w (fst (processRecommendation B C auth r w))). in_los_angeles c"
  by (simp add: step_calls insertion_def buildEvent_def)

lemma loop_zone:
  "\<forall>c \<in> set (called w (fst (executeLoop B C auth rs w))). in_los_angeles c"
proof (induction rs arbitrary: w)
  case Nil
  show ?case by (simp add: called_self)
next
  case (Cons r rs)
  obtain w' res where p: "processRecommendation B C auth r w = (w', res)"
    by (cases "processRecommendation B C auth r w")
  have e1: "extends w w'"
    using extends_processRecommendation [of w B C auth r] p by simp
  have z1: "\<forall>c \<in> set (called w w'). in_los_angeles c"
    using step_zone [of w B C auth r] p by simp
  show ?case
  proof (cases res)
    case (Inl e)
    with p z1 show ?thesis by simp
  next
    case (Inr u)
    have e2: "extends w' (fst (executeLoop B C auth rs w'))"
      by (rule extends_executeLoop)
    from p Inr called_append [OF e1 e2] z1 Cons.IH [of w']
    show ?thesis by auto
  qed
qed

lemma called_after_log:
  "called w (fst (executeLoop B C auth rs (console_log l w))) =
   called (console_log l w) (fst (executeLoop B C auth rs (console_log l w)))"
  by (simp add: called_def console_log_def)

lemma execute_zone:
  "\<forall>c \<in> set (called w (fst (executeCalendarActions B C auth s w))). in_los_angeles c"
  using loop_zone [of "console_log l w" B C auth rs for l rs]
  by (auto simp: executeCalendarActions_def get_prop_def called_self called_console_log
      called_after_log split: sum.splits js.splits)


subsection \<open>Splitting a run of the loop\<close>







subsection \<open>Well-formed recommendations\<close>




subsection \<open>The example inputs\<close>


lemma example_world_simps:
  "calls (example_world k) = []" "console (example_world k) = []"
  "now (example_world k) = 1704092400000" "env_key (example_world k) = k"
  by (simp_all add: example_world_def now_def)

lemma recommendation_fields:
  "action_type (recommendation prio ty title s e) = JString ty"
  "details_of (recommendation prio ty title s e) =
     JObject [(''title'', JString title), (''description'', JString []),
              (''startTime'', JString s), (''endTime'', JString e)]"
  "js_prop (recommendation prio ty title s e) ''priority'' = JString prio"
  "js_prop (recommendation prio ty title s e) ''title'' = JUndefined"
  "\<not> nullish (recommendation prio ty title s e)"
  by (simp_all add: recommendation_def action_type_def details_of_def nullish_def)


lemma recommendation_creatable: "creatable (recommendation prio ''CREATE'' title s e)"
  by (simp add: creatable_def recommendation_fields nullish_def)


section \<open>The claims about the reconciler\<close>

text \<open>
  Claim C5, as the specification states it: for every recommendation whose action type is
  \<^verbatim>\<open>MOVE\<close> or \<^verbatim>\<open>DELETE\<close> the reconciler records the outcome
  \<open>Skipped ''not supported''\<close>. On the recommendation \<open>move_dinner\<close> the outcome
  read off the console is not that one: the reason printed is another text.
\<close>

theorem move_delete_counterexample:
  "outcomes (printed (example_world None)
      (fst (processRecommendation example_builtins (example_collab [] always_succeeds)
              example_client move_dinner (example_world None))))
   \<noteq> [Skipped ''not supported'']"
  using step_move [of move_dinner example_builtins "example_collab [] always_succeeds"
      example_client "example_world None"]
  by (simp add: move_dinner_def recommendation_fields printed_console_log outcomes_def
      map_filter_def move_message_def delete_message_def)

text \<open>
  Claim C5, amended: for every recommendation whose action type is \<^verbatim>\<open>MOVE\<close> or
  \<^verbatim>\<open>DELETE\<close>, the iteration ends without an error, makes no external call, and prints
  exactly one line, the message that moving (deleting) is not implemented yet; the outcome
  read off the console is a skip with that message as its reason.
\<close>

theorem move_delete_skipped:
  assumes "action_type r = JString ''MOVE'' \<or> action_type r = JString ''DELETE''"
  shows "snd (processRecommendation B C auth r w) = Inr () \<and>
         called w (fst (processRecommendation B C auth r w)) = [] \<and>
         printed w (fst (processRecommendation B C auth r w)) =
           [LogText (if action_type r = JString ''MOVE'' then move_message else delete_message)] \<and>
         outcomes (printed w (fst (processRecommendation B C auth r w))) =
           [Skipped (if action_type r = JString ''MOVE'' then move_message else delete_message)]"
  using assms
proof
  assume m: "action_type r = JString ''MOVE''"
  from step_move [OF m, of B C auth w] m show ?thesis
    by (simp add: printed_console_log called_console_log called_self outcomes_simps)
next
  assume d: "action_type r = JString ''DELETE''"
  from step_delete [OF d, of B C auth w] d show ?thesis
    by (simp add: printed_console_log called_console_log called_self outcomes_simps)
qed

theorem move_delete_skipped_witness:
  "snd (processRecommendation example_builtins (example_collab [] always_succeeds)
          example_client move_dinner (example_world None)) = Inr () \<and>
   called (example_world None)
     (fst (processRecommendation example_builtins (example_collab [] always_succeeds)
          example_client move_dinner (example_world None))) = [] \<and>
   outcomes (printed (example_world None)
     (fst (processRecommendation example_builtins (example_collab [] always_succeeds)
          example_client move_dinner (example_world None)))) =
     [Skipped ''Move event functionality not implemented yet'']"
  using move_delete_skipped [of move_dinner example_builtins "example_collab [] always_succeeds"
      example_client "example_world None"]
  by (simp add: move_dinner_def recommendation_fields outcomes_def map_filter_def
      move_message_def delete_message_def)




text \<open>
  Claim C10: every external call that \<^verbatim>\<open>executeCalendarActions\<close> makes is the
  insertion of an event whose start and end both carry the time zone
  \<^verbatim>\<open>America/Los_Angeles\<close>. An iteration sends one event, the one built from its
  recommendation, exactly when the recommendation is a \<^verbatim>\<open>CREATE\<close> whose \<^verbatim>\<open>details\<close>
  are present and whose title and description convert to strings, and sends nothing
  otherwise; the event built from a recommendation has the fixed zone at both ends,
  whatever its \<^verbatim>\<open>startTime\<close> and \<^verbatim>\<open>endTime\<close> hold.
\<close>

theorem create_in_los_angeles:
  "(\<forall>c \<in> set (called w (fst (executeCalendarActions B C auth s w))). in_los_angeles c) \<and>
   called w (fst (processRecommendation B C auth r w)) =
     (if creatable r
      then [EventsInsert auth
              \<lparr> calendarId = ''primary'',
                requestBody = buildEvent B r (details_of r) (now w) \<rparr>]
      else []) \<and>
   timeZone (ev_start (buildEvent B r (details_of r) (now w))) = ''America/Los_Angeles'' \<and>
   timeZone (ev_end (buildEvent B r (details_of r) (now w))) = ''America/Los_Angeles''"
proof (intro conjI)
  show "\<forall>c \<in> set (called w (fst (executeCalendarActions B C auth s w))). in_los_angeles c"
    by (rule execute_zone)
  show "called w (fst (processRecommendation B C auth r w)) =
     (if creatable r
      then [EventsInsert auth
              \<lparr> calendarId = ''primary'',
                requestBody = buildEvent B r (details_of r) (now w) \<rparr>]
      else [])"
    using step_calls [of w B C auth r] by (simp add: insertion_def)
  show "timeZone (ev_start (buildEvent B r (details_of r) (now w))) = ''America/Los_Angeles''"
    by (simp add: buildEvent_def)
  show "timeZone (ev_end (buildEvent B r (details_of r) (now w))) = ''America/Los_Angeles''"
    by (simp add: buildEvent_def)
qed

theorem create_in_los_angeles_witness:
  "called (example_world None)
     (fst (executeCalendarActions example_builtins (example_collab [] always_succeeds)
        example_client (suggestions_of [move_dinner, empty_book_club]) (example_world None))) =
     [EventsInsert example_client
        \<lparr> calendarId = ''primary'',
          requestBody =
            \<lparr> ev_summary = JString ''Book Club'',
              ev_description = [],
              ev_start = \<lparr> dateTime = JString ''2024-01-07T15:00:00Z'',
                           timeZone = ''America/Los_Angeles'' \<rparr>,
              ev_end = \<lparr> dateTime = JString ''2024-01-07T15:00:00Z'',
                         timeZone = ''America/Los_Angeles'' \<rparr>,
              ev_private = \<lparr> createdBy = ''time-management-system'',
                             priority = JString ''LOW'',
                             timestamp = ''2024-01-01T07:00:00.000Z'' \<rparr> \<rparr> \<rparr>] \<and>
   in_los_angeles
     (hd (called (example_world None)
        (fst (executeCalendarActions example_builtins (example_collab [] always_succeeds)
           example_client (suggestions_of [move_dinner, empty_book_club])
           (example_world None)))))"
proof -
  let ?run = "called (example_world None)
     (fst (executeCalendarActions example_builtins (example_collab [] always_succeeds)
        example_client (suggestions_of [move_dinner, empty_book_club]) (example_world None)))"
  have ev: "?run =
     [EventsInsert example_client
        \<lparr> calendarId = ''primary'',
          requestBody =
            \<lparr> ev_summary = JString ''Book Club'',
              ev_description = [],
              ev_start = \<lparr> dateTime = JString ''2024-01-07T15:00:00Z'',
                           timeZone = ''America/Los_Angeles'' \<rparr>,
              ev_end = \<lparr> dateTime = JString ''2024-01-07T15:00:00Z'',
                         timeZone = ''America/Los_Angeles'' \<rparr>,
              ev_private = \<lparr> createdBy = ''time-management-system'',
                             priority = JString ''LOW'',
                             timestamp = ''2024-01-01T07:00:00.000Z'' \<rparr> \<rparr> \<rparr>]"
    by code_simp
  have "\<forall>c \<in> set ?run. in_los_angeles c"
    using create_in_los_angeles [where w = "example_world None" and B = example_builtins
        and C = "example_collab [] always_succeeds" and auth = example_client
        and s = "suggestions_of [move_dinner, empty_book_club]"]
    by blast
  then have "in_los_angeles (hd ?run)"
    unfolding ev by simp
  with ev show ?thesis
    by blast
qed







section \<open>Properties of the decoding\<close>




lemma decode_bad:
  assumes "JSON_parse B (CHR ''{'' # text) = None \<or>
           (\<exists>v. JSON_parse B (CHR ''{'' # text) = Some v \<and> \<not> isArray (js_prop v ''recommendations''))"
  shows "\<exists>e. decodeSuggestions B text = Inl e"
  using assms
  by (auto simp: decodeSuggestions_def get_prop_def)


lemma readResponse_bad:
  assumes "JSON_parse B (CHR ''{'' # text) = None \<or>
           (\<exists>v. JSON_parse B (CHR ''{'' # text) = Some v \<and> \<not> isArray (js_prop v ''recommendations''))"
  shows "snd (readResponse B (TextBlock text # rest) w) = Inl parse_failure"
    and "calls (fst (readResponse B (TextBlock text # rest) w)) = calls w"
    and "\<exists>e. printed w (fst (readResponse B (TextBlock text # rest) w)) =
           [ErrParse e, LogRawResponse text, ErrGettingSuggestions parse_failure]"
  using decode_bad [OF assms]
  by (auto simp: readResponse_def console_log_def printed_def)

lemma buildOracleRequest_simps:
  "calls (fst (buildOracleRequest B strategy events w)) = calls w"
  "console (fst (buildOracleRequest B strategy events w)) =
     console w @ [LogText (buildContext B strategy events (now w))]"
  "snd (buildOracleRequest B strategy events w) =
     oracleRequest (buildContext B strategy events (now w))"
  "env_key (fst (buildOracleRequest B strategy events w)) = env_key w"
  "files (fst (buildOracleRequest B strategy events w)) = files w"
  by (simp_all add: buildOracleRequest_def Let_def console_log_def tick_def)

text \<open>With the key and an answer, the function is the reading of the answer.\<close>

lemma getSchedulingSuggestions_answered:
  assumes "\<not> key_missing k"
    and "messages_create C (calls w) (the k)
           (oracleRequest (buildContext B strategy events (now w))) = Inr content"
  shows "getSchedulingSuggestions B C strategy events k w =
           readResponse B content
             (record_call (MessagesCreate (the k)
                (oracleRequest (buildContext B strategy events (now w))))
                (fst (buildOracleRequest B strategy events w)))"
  using assms
  by (simp add: getSchedulingSuggestions_def Let_def buildOracleRequest_simps)

lemma called_record_call:
  "calls w' = calls w \<Longrightarrow> called w (record_call c w') = [c]"
  by (simp add: called_def record_call_def)

lemma printed_record_call:
  "printed w (record_call c w') = printed w w'"
  by (simp add: printed_def record_call_def)

lemma called_same_calls:
  "calls w = calls w' \<Longrightarrow> called w x = called w' x"
  by (simp add: called_def)

lemma malformed_answer:
  assumes key: "\<not> key_missing k"
    and answer: "messages_create C (calls w) (the k)
           (oracleRequest (buildContext B strategy events (now w))) = Inr (TextBlock text # rest)"
    and bad: "JSON_parse B (CHR ''{'' # text) = None \<or>
           (\<exists>v. JSON_parse B (CHR ''{'' # text) = Some v \<and>
                \<not> isArray (js_prop v ''recommendations''))"
  shows "snd (getSchedulingSuggestions B C strategy events k w) = Inl parse_failure \<and>
         called w (fst (getSchedulingSuggestions B C strategy events k w)) =
           [MessagesCreate (the k) (oracleRequest (buildContext B strategy events (now w)))] \<and>
         last (messages (oracleRequest (buildContext B strategy events (now w)))) =
           (''assistant'', ''{'') \<and>
         (\<exists>e. printed w (fst (getSchedulingSuggestions B C strategy events k w)) =
            [LogText (buildContext B strategy events (now w)),
             ErrParse e, LogRawResponse text, ErrGettingSuggestions parse_failure])"
proof -
  let ?req = "oracleRequest (buildContext B strategy events (now w))"
  let ?w1 = "fst (buildOracleRequest B strategy events w)"
  let ?w2 = "record_call (MessagesCreate (the k) ?req) ?w1"
  have g: "getSchedulingSuggestions B C strategy events k w =
             readResponse B (TextBlock text # rest) ?w2"
    by (rule getSchedulingSuggestions_answered [OF key answer])
  have c2: "called w ?w2 = [MessagesCreate (the k) ?req]"
    by (simp add: called_record_call buildOracleRequest_simps)
  have p2: "printed w ?w2 = [LogText (buildContext B strategy events (now w))]"
    by (simp add: printed_def record_call_def buildOracleRequest_simps)
  have e2: "extends w ?w2"
    by (simp add: extends_def record_call_def buildOracleRequest_simps)
  have e3: "extends ?w2 (fst (readResponse B (TextBlock text # rest) ?w2))"
    using readResponse_bad(2,3) [OF bad, where rest = rest and w = "?w2"]
    by (auto simp: extends_def readResponse_def console_log_def split: sum.splits)
  have a: "snd (getSchedulingSuggestions B C strategy events k w) = Inl parse_failure"
    using g readResponse_bad(1) [OF bad, where rest = rest and w = "?w2"] by simp
  have b: "called w (fst (getSchedulingSuggestions B C strategy events k w)) =
             [MessagesCreate (the k) ?req]"
    using g readResponse_bad(2) [OF bad, where rest = rest and w = "?w2"] c2
    by (simp add: called_def)
  have c: "last (messages ?req) = (''assistant'', ''{'')"
    by (simp add: oracleRequest_def)
  have d: "\<exists>e. printed w (fst (getSchedulingSuggestions B C strategy events k w)) =
            [LogText (buildContext B strategy events (now w)),
             ErrParse e, LogRawResponse text, ErrGettingSuggestions parse_failure]"
    using g readResponse_bad(3) [OF bad, where rest = rest and w = "?w2"] printed_append [OF e2 e3] p2
    by auto
  from a b c d show ?thesis by blast
qed




lemma afterEvents_failure:
  assumes "getSchedulingSuggestions B C strategy es (env_key w)
             (console_log (LogText (CHR 0x0A # ''Getting scheduling suggestions...''))
                (console_log (LogFound (length es)) w)) = (w', Inl e)"
  shows "afterEvents B C strategy auth (Some es) w = (w', Inl e)"
  using assms by (simp add: afterEvents_def Let_def console_log_def)

lemma extends_readResponse: "extends w (fst (readResponse B content w))"
  by (auto simp: readResponse_def extends_def console_log_def
      split: list.splits content_block.splits sum.splits)

lemma extends_getSchedulingSuggestions:
  "extends w (fst (getSchedulingSuggestions B C strategy events k w))"
proof (cases "key_missing k")
  case True
  then show ?thesis
    by (simp add: getSchedulingSuggestions_def extends_refl)
next
  case False
  let ?w1 = "fst (buildOracleRequest B strategy events w)"
  let ?req = "snd (buildOracleRequest B strategy events w)"
  let ?w2 = "record_call (MessagesCreate (the k) ?req) ?w1"
  have e2: "extends w ?w2"
    by (simp add: extends_def record_call_def buildOracleRequest_simps)
  show ?thesis
  proof (cases "messages_create C (calls ?w1) (the k) ?req")
    case (Inl e)
    with False show ?thesis
      using extends_trans [OF e2 extends_console_log [of ?w2 "ErrGettingSuggestions e"]]
      by (simp add: getSchedulingSuggestions_def Let_def)
  next
    case (Inr content)
    with False show ?thesis
      using extends_trans [OF e2 extends_readResponse [of ?w2 B content]]
      by (simp add: getSchedulingSuggestions_def Let_def)
  qed
qed

lemma decode_examples:
  "JSON_parse example_builtins (CHR ''{'' # three_answer) =
     Some (suggestions_of [light_workout, urgent_grooming, move_dinner])"
  "JSON_parse example_builtins (CHR ''{'' # empty_answer) = Some (suggestions_of [empty_book_club])"
  "JSON_parse example_builtins (CHR ''{'' # truncated_answer) = None"
  "JSON_parse example_builtins (CHR ''{'' # misnamed_answer) =
     Some (JObject [(''suggestions'', JArray [])])"
  by code_simp+

section \<open>The claims about the decoding\<close>




text \<open>
  Claim C3: the answer is decoded behind the opening brace that the request pre-seeds as
  the assistant's turn. Whenever that decoding raises a syntax error, or gives a value
  whose \<^verbatim>\<open>recommendations\<close> is not an array, \<^verbatim>\<open>getSchedulingSuggestions\<close> fails with
  the error \<^verbatim>\<open>Failed to parse scheduling suggestions\<close>; its only external call is the
  one to the oracle, it prints the request, the decoding error, the raw answer and the
  failure, and the run that called it prints no recommendation and makes no other call.
\<close>

theorem malformed_output:
  assumes key: "\<not> key_missing k"
    and answer: "messages_create C (calls w) (the k)
           (oracleRequest (buildContext B strategy events (now w))) = Inr (TextBlock text # rest)"
    and bad: "JSON_parse B (CHR ''{'' # text) = None \<or>
           (\<exists>v. JSON_parse B (CHR ''{'' # text) = Some v \<and>
                \<not> isArray (js_prop v ''recommendations''))"
  shows "snd (getSchedulingSuggestions B C strategy events k w) = Inl parse_failure \<and>
         called w (fst (getSchedulingSuggestions B C strategy events k w)) =
           [MessagesCreate (the k) (oracleRequest (buildContext B strategy events (now w)))] \<and>
         last (messages (oracleRequest (buildContext B strategy events (now w)))) =
           (''assistant'', ''{'') \<and>
         (\<exists>e. printed w (fst (getSchedulingSuggestions B C strategy events k w)) =
            [LogText (buildContext B strategy events (now w)),
             ErrParse e, LogRawResponse text, ErrGettingSuggestions parse_failure]) \<and>
         (k = env_key w \<longrightarrow>
            snd (afterEvents B C strategy auth (Some events) w) = Inl parse_failure \<and>
            called w (fst (afterEvents B C strategy auth (Some events) w)) =
              [MessagesCreate (the k) (oracleRequest (buildContext B strategy events (now w)))] \<and>
            filter is_recommendation_line
              (printed w (fst (afterEvents B C strategy auth (Some events) w))) = [])"
proof -
  let ?req = "oracleRequest (buildContext B strategy events (now w))"
  let ?w0 = "console_log (LogText (CHR 0x0A # ''Getting scheduling suggestions...''))
                (console_log (LogFound (length events)) w)"
  let ?g = "getSchedulingSuggestions B C strategy events k"
  have first: "snd (?g w) = Inl parse_failure \<and>
         called w (fst (?g w)) = [MessagesCreate (the k) ?req] \<and>
         last (messages ?req) = (''assistant'', ''{'') \<and>
         (\<exists>e. printed w (fst (?g w)) =
            [LogText (buildContext B strategy events (now w)),
             ErrParse e, LogRawResponse text, ErrGettingSuggestions parse_failure])"
    by (rule malformed_answer [OF key answer bad])
  have same: "calls ?w0 = calls w" "now ?w0 = now w" "env_key ?w0 = env_key w"
    by (simp_all add: console_log_def now_def)
  have answer0: "messages_create C (calls ?w0) (the k)
           (oracleRequest (buildContext B strategy events (now ?w0))) = Inr (TextBlock text # rest)"
    using answer same by simp
  note second = malformed_answer [OF key answer0 bad]
  have p0: "printed w ?w0 =
              [LogFound (length events), LogText (CHR 0x0A # ''Getting scheduling suggestions...'')]"
    by (simp add: printed_def console_log_def)
  have e0: "extends w ?w0"
    by (simp add: extends_def console_log_def)
  have e1: "extends ?w0 (fst (?g ?w0))"
    by (rule extends_getSchedulingSuggestions)
  have "snd (afterEvents B C strategy auth (Some events) w) = Inl parse_failure \<and>
        called w (fst (afterEvents B C strategy auth (Some events) w)) = [MessagesCreate (the k) ?req] \<and>
        filter is_recommendation_line
          (printed w (fst (afterEvents B C strategy auth (Some events) w))) = []"
    if k: "k = env_key w"
  proof -
    have ae: "afterEvents B C strategy auth (Some events) w = (fst (?g ?w0), Inl parse_failure)"
      using afterEvents_failure [of B C strategy events w "fst (?g ?w0)" parse_failure auth]
        second k by (cases "?g ?w0") simp
    have c: "called w (fst (?g ?w0)) = [MessagesCreate (the k) ?req]"
      using second same called_same_calls [of w ?w0 "fst (?g ?w0)"] by simp
    obtain e where pr: "printed ?w0 (fst (?g ?w0)) =
            [LogText (buildContext B strategy events (now w)),
             ErrParse e, LogRawResponse text, ErrGettingSuggestions parse_failure]"
      using second same by auto
    have "printed w (fst (?g ?w0)) = printed w ?w0 @ printed ?w0 (fst (?g ?w0))"
      by (rule printed_append [OF e0 e1])
    then have f: "filter is_recommendation_line (printed w (fst (?g ?w0))) = []"
      using p0 pr by simp
    from ae c f show ?thesis by simp
  qed
  with first show ?thesis by blast
qed

theorem malformed_output_witness:
  "snd (getSchedulingSuggestions example_builtins (example_collab truncated_answer always_succeeds)
     example_strategy [] (Some ''sk-test'') (example_world (Some ''sk-test''))) =
     Inl (Error ''Failed to parse scheduling suggestions'') \<and>
   snd (getSchedulingSuggestions example_builtins (example_collab misnamed_answer always_succeeds)
     example_strategy [] (Some ''sk-test'') (example_world (Some ''sk-test''))) =
     Inl (Error ''Failed to parse scheduling suggestions'') \<and>
   called (example_world (Some ''sk-test''))
     (fst (afterEvents example_builtins (example_collab misnamed_answer always_succeeds)
        example_strategy example_client (Some []) (example_world (Some ''sk-test'')))) =
     [MessagesCreate ''sk-test''
        (oracleRequest (buildContext example_builtins example_strategy [] 1704092400000))]"
proof -
  let ?w = "example_world (Some ''sk-test'')"
  have key: "\<not> key_missing (Some ''sk-test'')"
    by (simp add: key_missing_def)
  have answer: "messages_create (example_collab ans always_succeeds) (calls ?w)
       (the (Some ''sk-test''))
       (oracleRequest (buildContext example_builtins example_strategy [] (now ?w))) =
       Inr (TextBlock ans # [])" for ans
    by (simp add: example_collab_def)
  have bad1: "JSON_parse example_builtins (CHR ''{'' # truncated_answer) = None \<or>
      (\<exists>v. JSON_parse example_builtins (CHR ''{'' # truncated_answer) = Some v \<and>
           \<not> isArray (js_prop v ''recommendations''))"
    by (simp add: decode_examples)
  have bad2: "JSON_parse example_builtins (CHR ''{'' # misnamed_answer) = None \<or>
      (\<exists>v. JSON_parse example_builtins (CHR ''{'' # misnamed_answer) = Some v \<and>
           \<not> isArray (js_prop v ''recommendations''))"
    by (simp add: decode_examples)
  from malformed_output [OF key answer bad1, where auth = example_client]
    malformed_output [OF key answer bad2, where auth = example_client]
  show ?thesis
    by (simp add: parse_failure_def example_world_simps)
qed

section \<open>Properties of a whole run\<close>

lemma adds_reads_refl: "adds_reads w w"
  by (simp add: adds_reads_def)

lemma adds_reads_trans: "adds_reads w w' \<Longrightarrow> adds_reads w' w'' \<Longrightarrow> adds_reads w w''"
  by (auto simp: adds_reads_def)

lemma adds_reads_console_log: "adds_reads w (console_log l w)"
  by (simp add: adds_reads_def console_log_def)

lemma adds_reads_called: "adds_reads w w' \<Longrightarrow> list_all read_call (called w w')"
  by (auto simp: adds_reads_def called_def)

lemma adds_reads_getAuthenticatedClient:
  "adds_reads w (fst (getAuthenticatedClient B C w))"
  by (auto simp: getAuthenticatedClient_def get_prop_def Let_def adds_reads_def ask_def
      console_log_def record_call_def
      split: option.splits sum.splits)

lemma adds_reads_getCalendarEvents:
  "adds_reads w (fst (getCalendarEvents B C auth w))"
  by (auto simp: getCalendarEvents_def Let_def adds_reads_def console_log_def record_call_def
      tick_def split: sum.splits)

lemma getSchedulingSuggestions_no_key:
  "key_missing k \<Longrightarrow>
   getSchedulingSuggestions B C strategy events k w =
     (w, Inl (Error ''ANTHROPIC_API_KEY not found in environment variables''))"
  by (simp add: getSchedulingSuggestions_def)

lemma adds_reads_afterEvents:
  assumes "key_missing (env_key w)"
  shows "adds_reads w (fst (afterEvents B C strategy auth events w))"
  using assms
  by (simp add: afterEvents_def Let_def getSchedulingSuggestions_no_key console_log_def
      adds_reads_def)

lemma adds_reads_mainBody:
  assumes "key_missing (env_key w)"
  shows "adds_reads w (fst (mainBody B C w))"
proof -
  let ?w1 = "console_log (LogText ''Starting time management system...'') w"
  let ?w2 = "console_log (LogText ''Strategy loaded'') ?w1"
  have a1: "adds_reads w ?w1"
    by (rule adds_reads_console_log)
  have a2: "adds_reads w ?w2"
    by (rule adds_reads_trans [OF a1 adds_reads_console_log])
  show ?thesis
  proof (cases "files ?w1 StrategyYaml")
    case None
    then show ?thesis
      using a1 by (simp add: mainBody_def Let_def)
  next
    case (Some yaml)
    show ?thesis
    proof (cases "yaml_parse B yaml")
      case (Inl e)
      with Some show ?thesis
        using a1 by (simp add: mainBody_def Let_def)
    next
      case (Inr strategy)
      obtain w3 r3 where g3: "getAuthenticatedClient B C ?w2 = (w3, r3)"
        by (cases "getAuthenticatedClient B C ?w2")
      have a3: "adds_reads w w3"
        using adds_reads_trans [OF a2 adds_reads_getAuthenticatedClient [of ?w2 B C]] g3 by simp
      show ?thesis
      proof (cases r3)
        case (Inl e)
        with Some Inr g3 a3 show ?thesis
          by (simp add: mainBody_def Let_def)
      next
        case auth: (Inr auth)
        obtain w4 r4 where g4: "getCalendarEvents B C auth w3 = (w4, r4)"
          by (cases "getCalendarEvents B C auth w3")
        have a4: "adds_reads w w4"
          using adds_reads_trans [OF a3 adds_reads_getCalendarEvents [of w3 B C auth]] g4 by simp
        show ?thesis
        proof (cases r4)
          case (Inl e)
          with Some Inr g3 auth g4 a4 show ?thesis
            by (simp add: mainBody_def Let_def)
        next
          case events: (Inr events)
          have k4: "key_missing (env_key w4)"
            using a4 assms by (simp add: adds_reads_def)
          have "adds_reads w (fst (afterEvents B C strategy auth events w4))"
            by (rule adds_reads_trans [OF a4 adds_reads_afterEvents [OF k4]])
          with Some Inr g3 auth g4 events show ?thesis
            by (simp add: mainBody_def Let_def)
        qed
      qed
    qed
  qed
qed

lemma adds_reads_main:
  assumes "key_missing (env_key w)"
  shows "adds_reads w (main B C w)"
  using adds_reads_mainBody [OF assms, of B C]
  by (auto simp: main_def split: prod.splits sum.splits
      intro: adds_reads_trans adds_reads_console_log)

lemma main_no_credentials:
  assumes "files w CredentialsJson = None"
  shows "calls (main B C w) = calls w"
  using assms
  by (simp add: main_def mainBody_def Let_def getAuthenticatedClient_def console_log_def
      split: option.splits sum.splits)

lemma main_no_strategy:
  assumes "files w StrategyYaml = None"
  shows "calls (main B C w) = calls w"
  using assms
  by (simp add: main_def mainBody_def Let_def console_log_def)

lemma count_list_map: "count_list (map f xs) y = length (filter (\<lambda>x. f x = y) xs)"
  by (induction xs) simp_all

subsection \<open>The order of the calls of \<^verbatim>\<open>main\<close>\<close>

lemma getAuthenticatedClient_keeps:
  "env_key (fst (getAuthenticatedClient B C w)) = env_key w"
  "\<exists>cs. calls (fst (getAuthenticatedClient B C w)) = calls w @ cs"
  using adds_reads_getAuthenticatedClient [of w B C] by (auto simp: adds_reads_def)

lemma getCalendarEvents_simps:
  "calls (fst (getCalendarEvents B C auth w)) =
     calls w @ [EventsList auth
        \<lparr> list_calendarId = ''primary'',
          timeMin = toISOString B (clock w (reads w) - 2592000000),
          timeMax = toISOString B (clock w (Suc (reads w)) + 604800000),
          singleEvents = True,
          orderBy = ''startTime'' \<rparr>]"
  "env_key (fst (getCalendarEvents B C auth w)) = env_key w"
  "now (fst (getCalendarEvents B C auth w)) = clock w (Suc (Suc (reads w)))"
  "snd (getCalendarEvents B C auth w) =
     events_list C (calls w) auth
        \<lparr> list_calendarId = ''primary'',
          timeMin = toISOString B (clock w (reads w) - 2592000000),
          timeMax = toISOString B (clock w (Suc (reads w)) + 604800000),
          singleEvents = True,
          orderBy = ''startTime'' \<rparr>"
  by (simp_all add: getCalendarEvents_def Let_def record_call_def console_log_def
      tick_def now_def split: sum.splits)

lemma mainBody_reads:
  assumes "files w StrategyYaml = Some yaml" and "yaml_parse B yaml = Inr strategy"
    and "getAuthenticatedClient B C
           (console_log (LogText ''Strategy loaded'')
              (console_log (LogText ''Starting time management system...'') w)) = (w3, Inr auth)"
  shows "mainBody B C w =
           (case getCalendarEvents B C auth w3 of
              (w4, Inl e) \<Rightarrow> (w4, Inl e)
            | (w4, Inr events) \<Rightarrow> afterEvents B C strategy auth events w4)"
  using assms by (simp add: mainBody_def Let_def console_log_def)

lemma afterEvents_no_key:
  assumes "key_missing (env_key w)"
  shows "calls (fst (afterEvents B C strategy auth events w)) = calls w"
    and "snd (afterEvents B C strategy auth events w) =
           Inl (Error ''ANTHROPIC_API_KEY not found in environment variables'')"
  using assms
  by (simp_all add: afterEvents_def Let_def getSchedulingSuggestions_no_key console_log_def)

lemma called_suffix: "calls w' = calls w @ cs \<Longrightarrow> called w w' = cs"
  by (simp add: called_def)

lemma main_result:
  "calls (main B C w) = calls (fst (mainBody B C w))"
  "snd (mainBody B C w) = Inl e \<Longrightarrow> last (console (main B C w)) = ErrMain e"
  by (auto simp: main_def console_log_def split: prod.splits sum.splits)

lemma main_missing_key:
  assumes key: "key_missing (env_key w)"
    and yaml: "files w StrategyYaml = Some yaml" and parsed: "yaml_parse B yaml = Inr strategy"
    and auth: "getAuthenticatedClient B C
           (console_log (LogText ''Strategy loaded'')
              (console_log (LogText ''Starting time management system...'') w)) = (w3, Inr auth)"
  shows "called w (main B C w) =
           called w w3 @
           [EventsList auth
              \<lparr> list_calendarId = ''primary'',
                timeMin = toISOString B (clock w3 (reads w3) - 2592000000),
                timeMax = toISOString B (clock w3 (Suc (reads w3)) + 604800000),
                singleEvents = True,
                orderBy = ''startTime'' \<rparr>]"
    and "last (console (main B C w)) =
           ErrMain (case events_list C (calls w3) auth
              \<lparr> list_calendarId = ''primary'',
                timeMin = toISOString B (clock w3 (reads w3) - 2592000000),
                timeMax = toISOString B (clock w3 (Suc (reads w3)) + 604800000),
                singleEvents = True,
                orderBy = ''startTime'' \<rparr> of
              Inl e \<Rightarrow> e
            | Inr items \<Rightarrow> Error ''ANTHROPIC_API_KEY not found in environment variables'')"
proof -
  let ?w2 = "console_log (LogText ''Strategy loaded'')
              (console_log (LogText ''Starting time management system...'') w)"
  let ?P = "\<lparr> list_calendarId = ''primary'',
                timeMin = toISOString B (clock w3 (reads w3) - 2592000000),
                timeMax = toISOString B (clock w3 (Suc (reads w3)) + 604800000),
                singleEvents = True,
                orderBy = ''startTime'' \<rparr>"
  obtain w4 r4 where g4: "getCalendarEvents B C auth w3 = (w4, r4)"
    by (cases "getCalendarEvents B C auth w3")
  have k3: "env_key w3 = env_key w"
    using getAuthenticatedClient_keeps(1) [of B C ?w2] auth by (simp add: console_log_def)
  obtain cs where c3: "calls w3 = calls w @ cs"
    using getAuthenticatedClient_keeps(2) [of B C ?w2] auth by (auto simp: console_log_def)
  have c4: "calls w4 = calls w3 @ [EventsList auth ?P]" and k4: "env_key w4 = env_key w"
    and r4: "r4 = events_list C (calls w3) auth ?P"
    using getCalendarEvents_simps(1,2,4) [of B C auth w3] g4 k3 by simp_all
  have body: "mainBody B C w =
           (case r4 of Inl e \<Rightarrow> (w4, Inl e)
            | Inr events \<Rightarrow> afterEvents B C strategy auth events w4)"
    using mainBody_reads [OF yaml parsed auth] g4 by simp
  have k4': "key_missing (env_key w4)"
    using key k4 by simp
  have calls_body: "calls (fst (mainBody B C w)) = calls w3 @ [EventsList auth ?P]"
    using body c4 afterEvents_no_key(1) [OF k4', of B C strategy auth]
    by (cases r4) simp_all
  have snd_body: "snd (mainBody B C w) =
      Inl (case r4 of Inl e \<Rightarrow> e
           | Inr items \<Rightarrow> Error ''ANTHROPIC_API_KEY not found in environment variables'')"
    using body afterEvents_no_key(2) [OF k4', of B C strategy auth]
    by (cases r4) simp_all
  have "calls (main B C w) = calls w @ (cs @ [EventsList auth ?P])"
    using calls_body c3 by (simp add: main_result(1))
  then have "called w (main B C w) = cs @ [EventsList auth ?P]"
    by (rule called_suffix)
  moreover have "called w w3 = cs"
    by (rule called_suffix [OF c3])
  ultimately show "called w (main B C w) = called w w3 @ [EventsList auth ?P]"
    by simp
  show "last (console (main B C w)) =
           ErrMain (case events_list C (calls w3) auth ?P of
              Inl e \<Rightarrow> e
            | Inr items \<Rightarrow> Error ''ANTHROPIC_API_KEY not found in environment variables'')"
    using main_result(2) [OF snd_body] r4 by simp
qed

lemma readResponse_calls: "calls (fst (readResponse B content w)) = calls w"
  by (auto simp: readResponse_def console_log_def
      split: list.splits content_block.splits sum.splits)

lemma getSchedulingSuggestions_calls:
  assumes "\<not> key_missing k"
  shows "calls (fst (getSchedulingSuggestions B C strategy events k w)) =
           calls w @ [MessagesCreate (the k)
                        (oracleRequest (buildContext B strategy events (now w)))]"
  using assms
  by (simp add: getSchedulingSuggestions_def Let_def buildOracleRequest_simps readResponse_calls
      record_call_def console_log_def split: sum.splits)

lemma extends_executeCalendarActions:
  "extends w (fst (executeCalendarActions B C auth s w))"
  by (auto simp: executeCalendarActions_def get_prop_def extends_refl extends_console_log
      split: sum.splits js.splits
      intro: extends_trans [OF extends_console_log extends_executeLoop])

lemma extends_printRecommendations: "extends w (printRecommendations B rs i w)"
proof (induction rs arbitrary: i w)
  case Nil
  show ?case by (simp add: extends_refl)
next
  case (Cons r rs)
  show ?case
    using extends_trans [OF extends_console_log Cons] by simp
qed

lemma extends_ask: "extends w (fst (ask q w))"
  by (simp add: ask_def extends_def console_log_def)

lemma extends_afterSuggestions: "extends w (fst (afterSuggestions B C auth v w))"
proof -
  let ?q = "CHR 0x0A # ''Do you want to execute these calendar actions? (y/n) ''"
  let ?w1 = "console_log (LogText (CHR 0x0A # ''Scheduling Suggestions:'')) w"
  have e1: "extends w ?w1"
    by (rule extends_console_log)
  show ?thesis
  proof (cases "\<exists>rs. get_prop v ''recommendations'' = Inr (JArray rs)")
    case False
    then have "fst (afterSuggestions B C auth v w) = ?w1"
      by (auto simp: afterSuggestions_def Let_def split: sum.splits js.splits)
    with e1 show ?thesis by simp
  next
    case True
    then obtain rs where rs: "get_prop v ''recommendations'' = Inr (JArray rs)"
      by blast
    let ?w2 = "printRecommendations B rs 0 ?w1"
    let ?w3 = "fst (ask ?q ?w2)"
    let ?w4 = "console_log (LogText (CHR 0x0A # ''Executing calendar actions...'')) ?w3"
    have e3: "extends w ?w3"
      by (rule extends_trans [OF e1 extends_trans [OF extends_printRecommendations extends_ask]])
    have e4: "extends w (fst (executeCalendarActions B C auth v ?w4))"
      by (rule extends_trans [OF e3 extends_trans [OF extends_console_log
              extends_executeCalendarActions]])
    show ?thesis
      using rs e3 e4 extends_trans [OF e3 extends_console_log]
        extends_trans [OF e4 extends_console_log]
      by (auto simp: afterSuggestions_def Let_def split: prod.splits sum.splits)
  qed
qed

lemma extends_calls: "extends w w' \<Longrightarrow> \<exists>cs. calls w' = calls w @ cs"
  by (simp add: extends_def)

lemma afterEvents_calls:
  assumes "\<not> key_missing (env_key w)"
  shows "\<exists>later. calls (fst (afterEvents B C strategy auth items w)) =
           calls w @
           MessagesCreate (the (env_key w))
             (oracleRequest (buildContext B strategy
                (case items of None \<Rightarrow> [] | Some es \<Rightarrow> es) (now w))) # later"
proof -
  let ?es = "case items of None \<Rightarrow> [] | Some es \<Rightarrow> es"
  let ?w2 = "console_log (LogText (CHR 0x0A # ''Getting scheduling suggestions...''))
               (console_log (LogFound (case items of None \<Rightarrow> 0 | Some es \<Rightarrow> length es)) w)"
  let ?call = "MessagesCreate (the (env_key w))
             (oracleRequest (buildContext B strategy ?es (now w)))"
  obtain w3 r3 where g: "getSchedulingSuggestions B C strategy ?es (env_key ?w2) ?w2 = (w3, r3)"
    by (cases "getSchedulingSuggestions B C strategy ?es (env_key ?w2) ?w2")
  have same: "env_key ?w2 = env_key w" "calls ?w2 = calls w" "now ?w2 = now w"
    by (simp_all add: console_log_def now_def)
  have c3: "calls w3 = calls w @ [?call]"
    using getSchedulingSuggestions_calls [of "env_key ?w2" B C strategy ?es ?w2] assms g same
    by simp
  have ae: "afterEvents B C strategy auth items w =
          (case r3 of Inl e \<Rightarrow> (w3, Inl e)
           | Inr suggestions \<Rightarrow> afterSuggestions B C auth suggestions w3)"
    using g by (simp add: afterEvents_def Let_def)
  show ?thesis
  proof (cases r3)
    case (Inl e)
    with ae c3 show ?thesis by simp
  next
    case (Inr suggestions)
    obtain cs where "calls (fst (afterSuggestions B C auth suggestions w3)) = calls w3 @ cs"
      using extends_calls [OF extends_afterSuggestions] by blast
    with ae Inr c3 show ?thesis by simp
  qed
qed

lemma main_snapshot:
  assumes key: "\<not> key_missing (env_key w)"
    and yaml: "files w StrategyYaml = Some yaml" and parsed: "yaml_parse B yaml = Inr strategy"
    and auth: "getAuthenticatedClient B C
           (console_log (LogText ''Strategy loaded'')
              (console_log (LogText ''Starting time management system...'') w)) = (w3, Inr auth)"
    and items: "events_list C (calls w3) auth
              \<lparr> list_calendarId = ''primary'',
                timeMin = toISOString B (clock w3 (reads w3) - 2592000000),
                timeMax = toISOString B (clock w3 (Suc (reads w3)) + 604800000),
                singleEvents = True,
                orderBy = ''startTime'' \<rparr> = Inr items"
  shows "\<exists>later. called w (main B C w) =
           called w w3 @
           EventsList auth
              \<lparr> list_calendarId = ''primary'',
                timeMin = toISOString B (clock w3 (reads w3) - 2592000000),
                timeMax = toISOString B (clock w3 (Suc (reads w3)) + 604800000),
                singleEvents = True,
                orderBy = ''startTime'' \<rparr> #
           MessagesCreate (the (env_key w))
             (oracleRequest (buildContext B strategy
                (case items of None \<Rightarrow> [] | Some es \<Rightarrow> es)
                (clock w3 (Suc (Suc (reads w3)))))) # later"
proof -
  let ?w2 = "console_log (LogText ''Strategy loaded'')
              (console_log (LogText ''Starting time management system...'') w)"
  let ?P = "\<lparr> list_calendarId = ''primary'',
                timeMin = toISOString B (clock w3 (reads w3) - 2592000000),
                timeMax = toISOString B (clock w3 (Suc (reads w3)) + 604800000),
                singleEvents = True,
                orderBy = ''startTime'' \<rparr>"
  let ?call = "MessagesCreate (the (env_key w))
             (oracleRequest (buildContext B strategy
                (case items of None \<Rightarrow> [] | Some es \<Rightarrow> es)
                (clock w3 (Suc (Suc (reads w3))))))"
  obtain w4 r4 where g4: "getCalendarEvents B C auth w3 = (w4, r4)"
    by (cases "getCalendarEvents B C auth w3")
  have k3: "env_key w3 = env_key w"
    using getAuthenticatedClient_keeps(1) [of B C ?w2] auth by (simp add: console_log_def)
  obtain cs where c3: "calls w3 = calls w @ cs"
    using getAuthenticatedClient_keeps(2) [of B C ?w2] auth by (auto simp: console_log_def)
  have c4: "calls w4 = calls w3 @ [EventsList auth ?P]" and k4: "env_key w4 = env_key w"
    and n4: "now w4 = clock w3 (Suc (Suc (reads w3)))"
    and r4: "r4 = Inr items"
    using getCalendarEvents_simps [of B C auth w3] g4 k3 items by simp_all
  have body: "mainBody B C w = afterEvents B C strategy auth items w4"
    using mainBody_reads [OF yaml parsed auth] g4 r4 by simp
  have k4': "\<not> key_missing (env_key w4)"
    using key k4 by simp
  obtain later where "calls (fst (afterEvents B C strategy auth items w4)) =
      calls w4 @ ?call # later"
    using afterEvents_calls [OF k4', of B C strategy auth items] k4 n4 by auto
  then have "calls (main B C w) = calls w @ (cs @ EventsList auth ?P # ?call # later)"
    using body c4 c3 by (simp add: main_result(1))
  then have "called w (main B C w) = cs @ EventsList auth ?P # ?call # later"
    by (rule called_suffix)
  moreover have "called w w3 = cs"
    by (rule called_suffix [OF c3])
  ultimately show ?thesis
    by simp
qed

subsection \<open>The example files\<close>

lemma example_credentials:
  \<open>JSON_parse example_builtins
     ''{"installed": {"client_id": "id", "client_secret": "secret", "redirect_uris": ["http://localhost"]}}'' =
   Some (JObject [(''installed'',
      JObject [(''client_id'', JString ''id''), (''client_secret'', JString ''secret''),
               (''redirect_uris'', JArray [JString ''http://localhost''])])])\<close>
  by code_simp

lemma example_token:
  \<open>JSON_parse example_builtins ''{"access_token": "token"}'' =
   Some (JObject [(''access_token'', JString ''token'')])\<close>
  by code_simp

lemma example_auth:
  "getAuthenticatedClient example_builtins C (console_log l (console_log l' (example_world k))) =
     (console_log l (console_log l' (example_world k)), Inr example_client)"
  by (simp add: getAuthenticatedClient_def example_world_def example_files_def console_log_def
      example_credentials example_token get_prop_def nullish_def example_client_def)

lemma example_window:
  "iso_string 1701500400000 = ''2023-12-02T07:00:00.000Z''"
  "iso_string 1704697200001 = ''2024-01-08T07:00:00.001Z''"
  by code_simp+

section \<open>The claims about the run and the request\<close>

text \<open>
  Claim C7, as the specification states it: when a required secret is missing the run
  aborts before any external call. In the world \<open>example_world None\<close> the environment
  has no \<^verbatim>\<open>ANTHROPIC_API_KEY\<close>; the run does end with that error, but the calendar has
  been read by then.
\<close>

theorem missing_key_counterexample:
  "calls (main example_builtins (example_collab three_answer always_succeeds) (example_world None)) =
     [EventsList example_client
        \<lparr> list_calendarId = ''primary'',
          timeMin = ''2023-12-02T07:00:00.000Z'',
          timeMax = ''2024-01-08T07:00:00.001Z'',
          singleEvents = True,
          orderBy = ''startTime'' \<rparr>] \<and>
   last (console (main example_builtins (example_collab three_answer always_succeeds)
     (example_world None))) =
     ErrMain (Error ''ANTHROPIC_API_KEY not found in environment variables'')"
  by code_simp

text \<open>
  Claim C7, amended: when the policy file or \<^verbatim>\<open>credentials.json\<close> is missing, the run
  makes no external call at all. When \<^verbatim>\<open>ANTHROPIC_API_KEY\<close> is missing,
  \<^verbatim>\<open>getSchedulingSuggestions\<close> fails at once and leaves the world as it is, so the run
  makes no call to the oracle and no calendar write. But the key is looked at only there:
  when it is missing and the policy file and the credentials load, the external calls of
  the run are those of \<^verbatim>\<open>getAuthenticatedClient\<close> followed by the calendar read, made
  with the client loaded, and the run ends by printing the error of the read if the read
  fails and the error of the key otherwise.
\<close>

theorem configuration_errors:
  "(files w StrategyYaml = None \<or> files w CredentialsJson = None \<longrightarrow>
      calls (main B C w) = calls w) \<and>
   (key_missing k \<longrightarrow>
      getSchedulingSuggestions B C strategy events k w =
        (w, Inl (Error ''ANTHROPIC_API_KEY not found in environment variables''))) \<and>
   (key_missing (env_key w) \<longrightarrow>
      (\<forall>c \<in> set (called w (main B C w)). \<not> is_oracle_call c \<and> \<not> is_insert c)) \<and>
   (key_missing (env_key w) \<and> files w StrategyYaml = Some yaml \<and>
    yaml_parse B yaml = Inr policy \<and>
    getAuthenticatedClient B C
      (console_log (LogText ''Strategy loaded'')
         (console_log (LogText ''Starting time management system...'') w)) = (w3, Inr auth) \<longrightarrow>
      called w (main B C w) =
        called w w3 @
        [EventsList auth
           \<lparr> list_calendarId = ''primary'',
             timeMin = toISOString B (clock w3 (reads w3) - 2592000000),
             timeMax = toISOString B (clock w3 (Suc (reads w3)) + 604800000),
             singleEvents = True,
             orderBy = ''startTime'' \<rparr>] \<and>
      last (console (main B C w)) =
        ErrMain (case events_list C (calls w3) auth
           \<lparr> list_calendarId = ''primary'',
             timeMin = toISOString B (clock w3 (reads w3) - 2592000000),
             timeMax = toISOString B (clock w3 (Suc (reads w3)) + 604800000),
             singleEvents = True,
             orderBy = ''startTime'' \<rparr> of
           Inl e \<Rightarrow> e
         | Inr items \<Rightarrow> Error ''ANTHROPIC_API_KEY not found in environment variables''))"
proof (intro conjI impI)
  assume "files w StrategyYaml = None \<or> files w CredentialsJson = None"
  then show "calls (main B C w) = calls w"
    using main_no_strategy [of w B C] main_no_credentials [of w B C] by blast
next
  assume "key_missing k"
  then show "getSchedulingSuggestions B C strategy events k w =
        (w, Inl (Error ''ANTHROPIC_API_KEY not found in environment variables''))"
    by (rule getSchedulingSuggestions_no_key)
next
  assume "key_missing (env_key w)"
  from adds_reads_called [OF adds_reads_main [OF this, of B C]]
  have "list_all read_call (called w (main B C w))" .
  moreover have "\<not> is_oracle_call c \<and> \<not> is_insert c" if "read_call c" for c
    using that by (cases c) simp_all
  ultimately show "\<forall>c \<in> set (called w (main B C w)). \<not> is_oracle_call c \<and> \<not> is_insert c"
    by (auto simp: list_all_iff)
next
  assume h: "key_missing (env_key w) \<and> files w StrategyYaml = Some yaml \<and>
    yaml_parse B yaml = Inr policy \<and>
    getAuthenticatedClient B C
      (console_log (LogText ''Strategy loaded'')
         (console_log (LogText ''Starting time management system...'') w)) = (w3, Inr auth)"
  then have key: "key_missing (env_key w)" and yaml: "files w StrategyYaml = Some yaml"
    and parsed: "yaml_parse B yaml = Inr policy"
    and auth: "getAuthenticatedClient B C
      (console_log (LogText ''Strategy loaded'')
         (console_log (LogText ''Starting time management system...'') w)) = (w3, Inr auth)"
    by simp_all
  show "called w (main B C w) =
        called w w3 @
        [EventsList auth
           \<lparr> list_calendarId = ''primary'',
             timeMin = toISOString B (clock w3 (reads w3) - 2592000000),
             timeMax = toISOString B (clock w3 (Suc (reads w3)) + 604800000),
             singleEvents = True,
             orderBy = ''startTime'' \<rparr>]"
    by (rule main_missing_key(1) [OF key yaml parsed auth])
  show "last (console (main B C w)) =
        ErrMain (case events_list C (calls w3) auth
           \<lparr> list_calendarId = ''primary'',
             timeMin = toISOString B (clock w3 (reads w3) - 2592000000),
             timeMax = toISOString B (clock w3 (Suc (reads w3)) + 604800000),
             singleEvents = True,
             orderBy = ''startTime'' \<rparr> of
           Inl e \<Rightarrow> e
         | Inr items \<Rightarrow> Error ''ANTHROPIC_API_KEY not found in environment variables'')"
    by (rule main_missing_key(2) [OF key yaml parsed auth])
qed

theorem configuration_errors_witness:
  "calls (main example_builtins (example_collab three_answer always_succeeds) without_credentials)
     = [] \<and>
   getSchedulingSuggestions example_builtins (example_collab three_answer always_succeeds)
     example_strategy [] None (example_world None) =
     (example_world None, Inl (Error ''ANTHROPIC_API_KEY not found in environment variables'')) \<and>
   filter is_insert (called (example_world None)
     (main example_builtins (example_collab three_answer always_succeeds) (example_world None)))
     = [] \<and>
   called (example_world None)
     (main example_builtins (example_collab three_answer always_succeeds) (example_world None)) =
     [EventsList example_client
        \<lparr> list_calendarId = ''primary'',
          timeMin = ''2023-12-02T07:00:00.000Z'',
          timeMax = ''2024-01-08T07:00:00.001Z'',
          singleEvents = True,
          orderBy = ''startTime'' \<rparr>] \<and>
   last (console
     (main example_builtins (example_collab three_answer always_succeeds) (example_world None))) =
     ErrMain (Error ''ANTHROPIC_API_KEY not found in environment variables'')"
proof -
  let ?C = "example_collab three_answer always_succeeds"
  let ?w3 = "console_log (LogText ''Strategy loaded'')
         (console_log (LogText ''Starting time management system...'') (example_world None))"
  have f: "files without_credentials StrategyYaml = None \<or>
           files without_credentials CredentialsJson = None"
    by (simp add: without_credentials_def)
  have c0: "calls without_credentials = []"
    by (simp add: without_credentials_def example_world_def)
  have k: "key_missing None" "key_missing (env_key (example_world None))"
    by (simp_all add: key_missing_def example_world_simps)
  have h: "key_missing (env_key (example_world None)) \<and>
      files (example_world None) StrategyYaml = Some example_strategy \<and>
      yaml_parse example_builtins example_strategy = Inr example_strategy \<and>
      getAuthenticatedClient example_builtins ?C ?w3 = (?w3, Inr example_client)"
    by (simp add: key_missing_def example_world_def example_files_def example_builtins_def
        example_auth [unfolded example_world_def example_builtins_def])
  note t1 = configuration_errors [where w = without_credentials and B = example_builtins
      and C = ?C and k = None]
  note t2 = configuration_errors [where w = "example_world None" and B = example_builtins
      and C = ?C and k = None and strategy = example_strategy and events = "[]"
      and yaml = example_strategy and policy = example_strategy and ?w3.0 = ?w3
      and auth = example_client]
  have a: "calls (main example_builtins ?C without_credentials) = []"
    using t1 f c0 by simp
  have b: "getSchedulingSuggestions example_builtins ?C example_strategy [] None (example_world None) =
     (example_world None, Inl (Error ''ANTHROPIC_API_KEY not found in environment variables''))"
    using t2 k by blast
  have "\<forall>c \<in> set (called (example_world None) (main example_builtins ?C (example_world None))).
          \<not> is_oracle_call c \<and> \<not> is_insert c"
    using t2 k by blast
  then have c: "filter is_insert (called (example_world None)
       (main example_builtins ?C (example_world None))) = []"
    by (simp add: filter_empty_conv)
  have w3: "called (example_world None) ?w3 = []" "reads ?w3 = 0" "calls ?w3 = []"
    "clock ?w3 = (\<lambda>n. 1704092400000 + int n)"
    by (simp_all add: called_def console_log_def example_world_def)
  from t2 h have d: "called (example_world None) (main example_builtins ?C (example_world None)) =
        called (example_world None) ?w3 @
        [EventsList example_client
           \<lparr> list_calendarId = ''primary'',
             timeMin = toISOString example_builtins (clock ?w3 (reads ?w3) - 2592000000),
             timeMax = toISOString example_builtins (clock ?w3 (Suc (reads ?w3)) + 604800000),
             singleEvents = True,
             orderBy = ''startTime'' \<rparr>]"
    and e: "last (console (main example_builtins ?C (example_world None))) =
        ErrMain (case events_list ?C (calls ?w3) example_client
           \<lparr> list_calendarId = ''primary'',
             timeMin = toISOString example_builtins (clock ?w3 (reads ?w3) - 2592000000),
             timeMax = toISOString example_builtins (clock ?w3 (Suc (reads ?w3)) + 604800000),
             singleEvents = True,
             orderBy = ''startTime'' \<rparr> of
           Inl e \<Rightarrow> e
         | Inr items \<Rightarrow> Error ''ANTHROPIC_API_KEY not found in environment variables'')"
    by blast+
  have d': "called (example_world None) (main example_builtins ?C (example_world None)) =
     [EventsList example_client
        \<lparr> list_calendarId = ''primary'',
          timeMin = ''2023-12-02T07:00:00.000Z'',
          timeMax = ''2024-01-08T07:00:00.001Z'',
          singleEvents = True,
          orderBy = ''startTime'' \<rparr>]"
    unfolding d w3 by (simp add: example_builtins_def example_window)
  have e': "last (console (main example_builtins ?C (example_world None))) =
     ErrMain (Error ''ANTHROPIC_API_KEY not found in environment variables'')"
    unfolding e by (simp add: example_collab_def)
  from a b c d' e' show ?thesis by blast
qed

text \<open>
  Claim C8, as the specification states it: building the request has no side effects. It
  prints the request on the console.
\<close>

theorem request_counterexample:
  "console (fst (buildOracleRequest example_builtins example_strategy [] (example_world None))) \<noteq>
   console (example_world None)"
  by (simp add: buildOracleRequest_simps)

text \<open>
  Claim C8, amended: the request is a function of the policy's YAML text, of the
  (summary, start, end) triples of the events and of the instant read from the clock, so
  two runs that agree on these build the same request, character by character. Building it
  makes no external call and changes no file and no environment variable; its effects are
  one reading of the clock and one console line, the text of the request.
\<close>

theorem request_deterministic:
  "(yaml_stringify B s1 = yaml_stringify B s2 \<and> formattedEvents es1 = formattedEvents es2 \<and>
    now w1 = now w2 \<longrightarrow>
      snd (buildOracleRequest B s1 es1 w1) = snd (buildOracleRequest B s2 es2 w2)) \<and>
   calls (fst (buildOracleRequest B s es w)) = calls w \<and>
   files (fst (buildOracleRequest B s es w)) = files w \<and>
   env_key (fst (buildOracleRequest B s es w)) = env_key w \<and>
   reads (fst (buildOracleRequest B s es w)) = Suc (reads w) \<and>
   printed w (fst (buildOracleRequest B s es w)) = [LogText (buildContext B s es (now w))]"
  by (simp add: buildOracleRequest_def Let_def buildContext_def console_log_def tick_def
      printed_def)

theorem request_deterministic_witness:
  "snd (buildOracleRequest example_builtins example_strategy [standup ''a'']
          (example_world None)) =
   snd (buildOracleRequest example_builtins example_strategy [standup ''b'']
          (example_world (Some ''sk-test'')))"
proof -
  have "formattedEvents [standup ''a''] = formattedEvents [standup ''b'']"
    by (simp add: formattedEvents_def formatEvent_def standup_def)
  then show ?thesis
    using request_deterministic [where B = example_builtins and ?s1.0 = example_strategy
        and ?s2.0 = example_strategy and ?es1.0 = "[standup ''a'']" and ?es2.0 = "[standup ''b'']"
        and ?w1.0 = "example_world None" and ?w2.0 = "example_world (Some ''sk-test'')"]
    by (simp add: example_world_simps)
qed

text \<open>
  Claim C9, as the specification states it: no duplicate (title, start, end) triple appears
  in the serialized snapshot. Two events of the calendar with the same title and times give
  the same triple twice.
\<close>

theorem snapshot_counterexample:
  "formattedEvents [standup ''a'', standup ''b''] =
     [JObject [(''summary'', JString ''Standup''),
               (''start'', JString ''2024-01-02T09:00:00Z''),
               (''end'', JString ''2024-01-02T09:15:00Z'')],
      JObject [(''summary'', JString ''Standup''),
               (''start'', JString ''2024-01-02T09:00:00Z''),
               (''end'', JString ''2024-01-02T09:15:00Z'')]] \<and>
   \<not> distinct (formattedEvents [standup ''a'', standup ''b''])"
  by (simp add: formattedEvents_def formatEvent_def standup_def of_opt_def time_of_def js_or_def)

text \<open>
  Claim C9, amended: the snapshot in the request is the list of the (summary, start, end)
  triples of the events handed over, one per event and in their order: the triple at an
  index is the one of the event at that index, so nothing is deduplicated, and a triple
  occurs as often as there are events with that triple. It is what the request serializes
  between its headings. The calendar read asks for the window from 30 days before the first
  reading of the clock to 7 days after the second, and returns what the calendar answers.
  In a run of \<^verbatim>\<open>main\<close> with the key, the policy and the credentials, the call to the
  oracle follows the calendar read and carries the request built from the events that the
  read returned, or from none when it returned no list.
\<close>

theorem snapshot_not_deduplicated:
  "length (formattedEvents events) = length events \<and>
   (\<forall>i < length events.
      formattedEvents events ! i =
        JObject [(''summary'', of_opt (it_summary (events ! i))),
                 (''start'', time_of (it_start (events ! i))),
                 (''end'', time_of (it_end (events ! i)))]) \<and>
   count_list (formattedEvents events) t = length (filter (\<lambda>e. formatEvent e = t) events) \<and>
   snd (buildOracleRequest B strategy events w) =
     oracleRequest (buildContext B strategy events (now w)) \<and>
   messages (oracleRequest (buildContext B strategy events instant)) =
     [(''user'',
       context_intro @ toISOString B instant @
       context_strategy_heading @ yaml_stringify B strategy @
       context_events_heading @ JSON_stringify B 2 (JArray (formattedEvents events)) @
       context_instructions),
      (''assistant'', ''{'')] \<and>
   called w (fst (getCalendarEvents B C auth w)) =
     [EventsList auth
        \<lparr> list_calendarId = ''primary'',
          timeMin = toISOString B (clock w (reads w) - 2592000000),
          timeMax = toISOString B (clock w (Suc (reads w)) + 604800000),
          singleEvents = True,
          orderBy = ''startTime'' \<rparr>] \<and>
   snd (getCalendarEvents B C auth w) =
     events_list C (calls w) auth
        \<lparr> list_calendarId = ''primary'',
          timeMin = toISOString B (clock w (reads w) - 2592000000),
          timeMax = toISOString B (clock w (Suc (reads w)) + 604800000),
          singleEvents = True,
          orderBy = ''startTime'' \<rparr> \<and>
   (\<not> key_missing (env_key w) \<and> files w StrategyYaml = Some yaml \<and>
    yaml_parse B yaml = Inr strategy \<and>
    getAuthenticatedClient B C
      (console_log (LogText ''Strategy loaded'')
         (console_log (LogText ''Starting time management system...'') w)) = (w3, Inr client) \<and>
    events_list C (calls w3) client
        \<lparr> list_calendarId = ''primary'',
          timeMin = toISOString B (clock w3 (reads w3) - 2592000000),
          timeMax = toISOString B (clock w3 (Suc (reads w3)) + 604800000),
          singleEvents = True,
          orderBy = ''startTime'' \<rparr> = Inr items \<longrightarrow>
      (\<exists>later. called w (main B C w) =
         called w w3 @
         EventsList client
           \<lparr> list_calendarId = ''primary'',
             timeMin = toISOString B (clock w3 (reads w3) - 2592000000),
             timeMax = toISOString B (clock w3 (Suc (reads w3)) + 604800000),
             singleEvents = True,
             orderBy = ''startTime'' \<rparr> #
         MessagesCreate (the (env_key w))
           (oracleRequest (buildContext B strategy
              (case items of None \<Rightarrow> [] | Some es \<Rightarrow> es)
              (clock w3 (Suc (Suc (reads w3)))))) # later))"
proof (intro conjI allI impI)
  show "length (formattedEvents events) = length events"
    by (simp add: formattedEvents_def)
  show "formattedEvents events ! i =
        JObject [(''summary'', of_opt (it_summary (events ! i))),
                 (''start'', time_of (it_start (events ! i))),
                 (''end'', time_of (it_end (events ! i)))]" if "i < length events" for i
    using that by (simp add: formattedEvents_def formatEvent_def)
  show "count_list (formattedEvents events) t = length (filter (\<lambda>e. formatEvent e = t) events)"
    by (simp add: formattedEvents_def count_list_map)
  show "snd (buildOracleRequest B strategy events w) =
     oracleRequest (buildContext B strategy events (now w))"
    by (rule buildOracleRequest_simps(3))
  show "messages (oracleRequest (buildContext B strategy events instant)) =
     [(''user'',
       context_intro @ toISOString B instant @
       context_strategy_heading @ yaml_stringify B strategy @
       context_events_heading @ JSON_stringify B 2 (JArray (formattedEvents events)) @
       context_instructions),
      (''assistant'', ''{'')]"
    by (simp add: oracleRequest_def buildContext_def)
  show "called w (fst (getCalendarEvents B C auth w)) =
     [EventsList auth
        \<lparr> list_calendarId = ''primary'',
          timeMin = toISOString B (clock w (reads w) - 2592000000),
          timeMax = toISOString B (clock w (Suc (reads w)) + 604800000),
          singleEvents = True,
          orderBy = ''startTime'' \<rparr>]"
    by (rule called_suffix [OF getCalendarEvents_simps(1)])
  show "snd (getCalendarEvents B C auth w) =
     events_list C (calls w) auth
        \<lparr> list_calendarId = ''primary'',
          timeMin = toISOString B (clock w (reads w) - 2592000000),
          timeMax = toISOString B (clock w (Suc (reads w)) + 604800000),
          singleEvents = True,
          orderBy = ''startTime'' \<rparr>"
    by (rule getCalendarEvents_simps(4))
  assume h: "\<not> key_missing (env_key w) \<and> files w StrategyYaml = Some yaml \<and>
    yaml_parse B yaml = Inr strategy \<and>
    getAuthenticatedClient B C
      (console_log (LogText ''Strategy loaded'')
         (console_log (LogText ''Starting time management system...'') w)) = (w3, Inr client) \<and>
    events_list C (calls w3) client
        \<lparr> list_calendarId = ''primary'',
          timeMin = toISOString B (clock w3 (reads w3) - 2592000000),
          timeMax = toISOString B (clock w3 (Suc (reads w3)) + 604800000),
          singleEvents = True,
          orderBy = ''startTime'' \<rparr> = Inr items"
  then have key: "\<not> key_missing (env_key w)" and yaml: "files w StrategyYaml = Some yaml"
    and parsed: "yaml_parse B yaml = Inr strategy"
    and auth: "getAuthenticatedClient B C
      (console_log (LogText ''Strategy loaded'')
         (console_log (LogText ''Starting time management system...'') w)) = (w3, Inr client)"
    and items: "events_list C (calls w3) client
        \<lparr> list_calendarId = ''primary'',
          timeMin = toISOString B (clock w3 (reads w3) - 2592000000),
          timeMax = toISOString B (clock w3 (Suc (reads w3)) + 604800000),
          singleEvents = True,
          orderBy = ''startTime'' \<rparr> = Inr items"
    by simp_all
  show "\<exists>later. called w (main B C w) =
         called w w3 @
         EventsList client
           \<lparr> list_calendarId = ''primary'',
             timeMin = toISOString B (clock w3 (reads w3) - 2592000000),
             timeMax = toISOString B (clock w3 (Suc (reads w3)) + 604800000),
             singleEvents = True,
             orderBy = ''startTime'' \<rparr> #
         MessagesCreate (the (env_key w))
           (oracleRequest (buildContext B strategy
              (case items of None \<Rightarrow> [] | Some es \<Rightarrow> es)
              (clock w3 (Suc (Suc (reads w3)))))) # later"
    by (rule main_snapshot [OF key yaml parsed auth items])
qed

theorem snapshot_not_deduplicated_witness:
  "formattedEvents [standup ''a'', standup ''b''] ! 1 =
     JObject [(''summary'', JString ''Standup''),
              (''start'', JString ''2024-01-02T09:00:00Z''),
              (''end'', JString ''2024-01-02T09:15:00Z'')] \<and>
   (\<exists>later.
      calls (main example_builtins
        ((example_collab three_answer always_succeeds)
           \<lparr>events_list := \<lambda>h a p. Inr (Some [standup ''a'', standup ''b''])\<rparr>)
        (example_world (Some ''sk-test''))) =
      EventsList example_client
        \<lparr> list_calendarId = ''primary'',
          timeMin = ''2023-12-02T07:00:00.000Z'',
          timeMax = ''2024-01-08T07:00:00.001Z'',
          singleEvents = True,
          orderBy = ''startTime'' \<rparr> #
      MessagesCreate ''sk-test''
        (oracleRequest (buildContext example_builtins example_strategy
           [standup ''a'', standup ''b''] 1704092400002)) # later)"
proof -
  let ?C = "(example_collab three_answer always_succeeds)
           \<lparr>events_list := \<lambda>h a p. Inr (Some [standup ''a'', standup ''b''])\<rparr>"
  let ?w = "example_world (Some ''sk-test'')"
  let ?w3 = "console_log (LogText ''Strategy loaded'')
         (console_log (LogText ''Starting time management system...'') ?w)"
  note t = snapshot_not_deduplicated [where events = "[standup ''a'', standup ''b'']"
      and w = ?w and B = example_builtins and C = ?C and yaml = example_strategy
      and strategy = example_strategy and ?w3.0 = ?w3 and client = example_client
      and items = "Some [standup ''a'', standup ''b'']"]
  have w3: "called ?w ?w3 = []" "reads ?w3 = 0" "calls ?w3 = []"
    "clock ?w3 = (\<lambda>n. 1704092400000 + int n)"
    by (simp_all add: called_def console_log_def example_world_def)
  have h: "\<not> key_missing (env_key ?w) \<and>
      files ?w StrategyYaml = Some example_strategy \<and>
      yaml_parse example_builtins example_strategy = Inr example_strategy \<and>
      getAuthenticatedClient example_builtins ?C ?w3 = (?w3, Inr example_client) \<and>
      events_list ?C (calls ?w3) example_client
        \<lparr> list_calendarId = ''primary'',
          timeMin = toISOString example_builtins (clock ?w3 (reads ?w3) - 2592000000),
          timeMax = toISOString example_builtins (clock ?w3 (Suc (reads ?w3)) + 604800000),
          singleEvents = True,
          orderBy = ''startTime'' \<rparr> = Inr (Some [standup ''a'', standup ''b''])"
    by (simp add: key_missing_def example_world_def example_files_def example_builtins_def
        example_auth [unfolded example_world_def example_builtins_def])
  have i: "(1::nat) < length [standup ''a'', standup ''b'']"
    by simp
  from t i have a: "formattedEvents [standup ''a'', standup ''b''] ! 1 =
        JObject [(''summary'', of_opt (it_summary ([standup ''a'', standup ''b''] ! 1))),
                 (''start'', time_of (it_start ([standup ''a'', standup ''b''] ! 1))),
                 (''end'', time_of (it_end ([standup ''a'', standup ''b''] ! 1)))]"
    by blast
  have a': "formattedEvents [standup ''a'', standup ''b''] ! 1 =
     JObject [(''summary'', JString ''Standup''),
              (''start'', JString ''2024-01-02T09:00:00Z''),
              (''end'', JString ''2024-01-02T09:15:00Z'')]"
    unfolding a by (simp add: standup_def of_opt_def time_of_def js_or_def)
  from t h obtain later where b: "called ?w (main example_builtins ?C ?w) =
         called ?w ?w3 @
         EventsList example_client
           \<lparr> list_calendarId = ''primary'',
             timeMin = toISOString example_builtins (clock ?w3 (reads ?w3) - 2592000000),
             timeMax = toISOString example_builtins (clock ?w3 (Suc (reads ?w3)) + 604800000),
             singleEvents = True,
             orderBy = ''startTime'' \<rparr> #
         MessagesCreate (the (env_key ?w))
           (oracleRequest (buildContext example_builtins example_strategy
              (case Some [standup ''a'', standup ''b''] of None \<Rightarrow> [] | Some es \<Rightarrow> es)
              (clock ?w3 (Suc (Suc (reads ?w3)))))) # later"
    by blast
  have c: "called ?w (main example_builtins ?C ?w) = calls (main example_builtins ?C ?w)"
    by (simp add: called_def example_world_def)
  have "calls (main example_builtins ?C ?w) =
      EventsList example_client
        \<lparr> list_calendarId = ''primary'',
          timeMin = ''2023-12-02T07:00:00.000Z'',
          timeMax = ''2024-01-08T07:00:00.001Z'',
          singleEvents = True,
          orderBy = ''startTime'' \<rparr> #
      MessagesCreate ''sk-test''
        (oracleRequest (buildContext example_builtins example_strategy
           [standup ''a'', standup ''b''] 1704092400002)) # later"
    using b unfolding c w3 by (simp add: example_builtins_def example_window example_world_def)
  with a' show ?thesis by blast
qed

end
